theory Spec2Isabelle
  imports Complex_Main
begin

section \<open>The book catalogue of storage/controllers.go\<close>

text \<open>
  The source holds two generations of the same controllers. The first (lines 1-174) is a
  set of package-level functions working on the fixed file \<^verbatim>\<open>storage/storage.json\<close>;
  the second (lines 175-444) is the \<^verbatim>\<open>library\<close> facade, whose methods carry the same
  names and choose between the file and the relational store by the flag \<^verbatim>\<open>useSql\<close>.
  Both are embedded: a package-level function keeps its name, the method \<^verbatim>\<open>(l *library) F\<close>
  is the constant \<open>library_F\<close>.
\<close>

subsection \<open>Data\<close>

text \<open>
  Modelled from the spec: the declarations of \<^verbatim>\<open>Book\<close>, \<^verbatim>\<open>Books\<close>, \<^verbatim>\<open>Filter\<close> and
  \<^verbatim>\<open>BookFilter\<close> are not in the source file; the fields are those of the persisted
  format (id, title, pages, price, genres). \<open>Genres\<close> is a Go slice, which the code
  compares with \<^verbatim>\<open>nil\<close>: \<open>None\<close> is the nil slice, \<open>Some []\<close> the empty slice that is
  not nil. \<open>Pages\<close> is a Go integer (no arithmetic is done on it) and \<open>Price\<close> a float64,
  read as the real number it denotes (NaN and the infinities, which the JSON encoder
  refuses to write, are outside the model). A \<^verbatim>\<open>Books\<close> value is a slice of books; the nil
  slice and the empty slice are both the empty list.
\<close>

record Book =
  ID :: string
  Title :: string
  Genres :: "string list option"
  Pages :: int
  Price :: real

type_synonym Books = "Book list"

text \<open>
  The filter structs have the single field \<^verbatim>\<open>Price\<close>, a string; it is called
  \<open>FilterPrice\<close> here because \<open>Price\<close> is the field of \<open>Book\<close>.
\<close>

record BookFilter =
  FilterPrice :: string

type_synonym Filter = BookFilter

record library =
  storage :: string
  useSql :: bool

definition NewLibrary :: "string \<Rightarrow> bool \<Rightarrow> library" where
  "NewLibrary pathToStorage useSql' = \<lparr>storage = pathToStorage, useSql = useSql'\<rparr>"

text \<open>
  Go errors. The first six are the values the controllers build with \<^verbatim>\<open>errors.New\<close>;
  the others stand for the errors the libraries return.
\<close>

datatype error =
    ErrNotPopulated          \<comment> \<open>"not all fields are populated"\<close>
  | ErrNotFound              \<comment> \<open>"can't find the book with given ID"\<close>
  | ErrNotImplemented        \<comment> \<open>"NotImplemented"\<close>
  | ErrNotValidData          \<comment> \<open>"Not valid data"\<close>
  | ErrUnsupportedOperation  \<comment> \<open>"unsupported operation"\<close>
  | ErrBadRequest            \<comment> \<open>"bad request"\<close>
  | PathError                \<comment> \<open>path/filepath, io/ioutil\<close>
  | JSONError                \<comment> \<open>encoding/json\<close>
  | NumError                 \<comment> \<open>strconv\<close>
  | DBError                  \<comment> \<open>the relational store\<close>

text \<open>A call either returns or stops the program with a run-time panic.\<close>

datatype 'a outcome = Panics | Returns 'a

subsection \<open>The world outside the package\<close>

text \<open>
  The library functions the controllers call are parameters of the model. The bytes of
  the storage file are opaque to the controllers (they are produced by
  \<^verbatim>\<open>json.MarshalIndent\<close> and consumed by \<^verbatim>\<open>json.Unmarshal\<close>), so their type is a
  parameter too, as is the state of the relational store. \<^verbatim>\<open>InitDB\<close> belongs to the
  package but is not in the source file; it only opens the connection. The properties
  that do not depend on what the codec does hold for every environment; the codec as
  the library documents it is given further down.
\<close>

record ('bytes, 'db) env =
  filepath_Abs :: "string \<Rightarrow> error + string"
  json_MarshalIndent :: "Books \<Rightarrow> error + 'bytes"
  json_Unmarshal :: "'bytes \<Rightarrow> error + Books"
  strconv_ParseFloat :: "string \<Rightarrow> error + real"
  uuid_NewV4 :: "nat \<Rightarrow> string"
  InitDB :: "'db \<Rightarrow> error option"
  db_Find :: "'db \<Rightarrow> error + Books"
  db_First :: "'db \<Rightarrow> string \<Rightarrow> error + Book"
  db_Create :: "'db \<Rightarrow> Book \<Rightarrow> error option \<times> 'db"
  db_Save :: "'db \<Rightarrow> Book \<Rightarrow> error option \<times> 'db"
  db_Delete :: "'db \<Rightarrow> Book \<Rightarrow> error option \<times> 'db"

text \<open>
  The mutable state: the files by absolute path, the paths that cannot be written, the
  state of the random source behind \<^verbatim>\<open>uuid.NewV4\<close>, and the relational store.
  Reading a file that does not exist fails. A write that fails is taken to fail when the
  file is opened, so it leaves the file as it was; a write that succeeds replaces the
  whole contents.
\<close>

record ('bytes, 'db) world =
  files :: "string \<Rightarrow> 'bytes option"
  unwritable :: "string set"
  entropy :: nat
  db :: 'db

definition ioutil_ReadFile :: "('bytes, 'db) world \<Rightarrow> string \<Rightarrow> error + 'bytes" where
  "ioutil_ReadFile w path = (case files w path of None \<Rightarrow> Inl PathError | Some data \<Rightarrow> Inr data)"

definition ioutil_WriteFile ::
  "('bytes, 'db) world \<Rightarrow> string \<Rightarrow> 'bytes \<Rightarrow> error option \<times> ('bytes, 'db) world" where
  "ioutil_WriteFile w path data =
     (if path \<in> unwritable w then (Some PathError, w)
      else (None, w\<lparr>files := (files w)(path \<mapsto> data)\<rparr>))"

text \<open>\<^verbatim>\<open>uuid.NewV4().String()\<close>: draws from the random source and moves it on.\<close>

definition new_uuid ::
  "('bytes, 'db) env \<Rightarrow> ('bytes, 'db) world \<Rightarrow> string \<times> ('bytes, 'db) world" where
  "new_uuid env w = (uuid_NewV4 env (entropy w), w\<lparr>entropy := Suc (entropy w)\<rparr>)"

subsection \<open>Go's indexing and slicing\<close>

text \<open>
  \<^verbatim>\<open>s[i]\<close>, \<^verbatim>\<open>s[:i]\<close> and \<^verbatim>\<open>s[i:]\<close> panic out of range; \<open>None\<close> is the panic. (For a
  slice \<^verbatim>\<open>s[:i]\<close> is checked against the capacity; the controllers only reach it with
  \<open>i\<close> below the length.) \<^verbatim>\<open>string(b)\<close> of a byte \<open>b\<close> is the UTF-8 encoding of the code
  point \<open>b\<close>: one byte below 128, two bytes from 128 on.
\<close>

definition index_at :: "'a list \<Rightarrow> nat \<Rightarrow> 'a option" where
  "index_at xs i = (if i < length xs then Some (xs ! i) else None)"

definition slice_to :: "'a list \<Rightarrow> nat \<Rightarrow> 'a list option" where
  "slice_to xs hi = (if hi \<le> length xs then Some (take hi xs) else None)"

definition slice_from :: "'a list \<Rightarrow> nat \<Rightarrow> 'a list option" where
  "slice_from xs lo = (if lo \<le> length xs then Some (drop lo xs) else None)"

definition string_of_byte :: "char \<Rightarrow> string" where
  "string_of_byte b =
     (let n = (of_char b :: nat)
      in if n < 128 then [b] else [char_of (192 + n div 64), char_of (128 + n mod 64)])"

subsection \<open>The package-level controllers (lines 12-174)\<close>

definition writeData ::
  "('bytes, 'db) env \<Rightarrow> ('bytes, 'db) world \<Rightarrow> Books \<Rightarrow> error option \<times> ('bytes, 'db) world" where
  "writeData env w books =
     (case filepath_Abs env ''storage/storage.json'' of
        Inl err \<Rightarrow> (Some err, w)
      | Inr path \<Rightarrow>
          (case json_MarshalIndent env books of
             Inl err \<Rightarrow> (Some err, w)
           | Inr booksBytes \<Rightarrow> ioutil_WriteFile w path booksBytes))"

text \<open>The \<^verbatim>\<open>range\<close> loop of \<^verbatim>\<open>wantedIndex\<close>, from position \<open>index\<close> on.\<close>

fun wantedIndex_loop :: "nat \<Rightarrow> string \<Rightarrow> Books \<Rightarrow> error + nat" where
  "wantedIndex_loop index id' [] = Inl ErrNotFound"
| "wantedIndex_loop index id' (book # books) =
     (if id' = ID book then Inr index else wantedIndex_loop (Suc index) id' books)"

definition wantedIndex :: "string \<Rightarrow> Books \<Rightarrow> error + nat" where
  "wantedIndex id' books = wantedIndex_loop 0 id' books"

definition GetBooks :: "('bytes, 'db) env \<Rightarrow> ('bytes, 'db) world \<Rightarrow> error + Books" where
  "GetBooks env w =
     (case filepath_Abs env ''storage/storage.json'' of
        Inl err \<Rightarrow> Inl err
      | Inr path \<Rightarrow>
          (case ioutil_ReadFile w path of
             Inl err \<Rightarrow> Inl err
           | Inr file \<Rightarrow> json_Unmarshal env file))"

definition CreateBook ::
  "('bytes, 'db) env \<Rightarrow> ('bytes, 'db) world \<Rightarrow> Book \<Rightarrow> error option \<times> ('bytes, 'db) world" where
  "CreateBook env w book =
     (if Genres book = None then (Some ErrNotPopulated, w)
      else if Pages book = 0 then (Some ErrNotPopulated, w)
      else if Price book = 0 then (Some ErrNotPopulated, w)
      else if Title book = [] then (Some ErrNotPopulated, w)
      else
        (case GetBooks env w of
           Inl err \<Rightarrow> (Some err, w)
         | Inr books \<Rightarrow>
             (case new_uuid env w of
                (uuid, w1) \<Rightarrow> writeData env w1 (books @ [book\<lparr>ID := uuid\<rparr>]))))"

text \<open>The \<^verbatim>\<open>range\<close> loop of \<^verbatim>\<open>GetBook\<close>: the first book with the identifier.\<close>

fun GetBook_loop :: "string \<Rightarrow> Books \<Rightarrow> error + Book" where
  "GetBook_loop id' [] = Inl ErrNotFound"
| "GetBook_loop id' (book # books) =
     (if id' = ID book then Inr book else GetBook_loop id' books)"

definition GetBook :: "('bytes, 'db) env \<Rightarrow> ('bytes, 'db) world \<Rightarrow> string \<Rightarrow> error + Book" where
  "GetBook env w id' =
     (case GetBooks env w of
        Inl err \<Rightarrow> Inl err
      | Inr books \<Rightarrow> GetBook_loop id' books)"

text \<open>\<^verbatim>\<open>append(books[:index], books[index+1:]...)\<close>\<close>

definition remove_at :: "Books \<Rightarrow> nat \<Rightarrow> Books option" where
  "remove_at books index =
     (case slice_to books index of
        None \<Rightarrow> None
      | Some front \<Rightarrow>
          (case slice_from books (index + 1) of
             None \<Rightarrow> None
           | Some back \<Rightarrow> Some (front @ back)))"

definition RemoveBook ::
  "('bytes, 'db) env \<Rightarrow> ('bytes, 'db) world \<Rightarrow> string
     \<Rightarrow> (error option \<times> ('bytes, 'db) world) outcome" where
  "RemoveBook env w id' =
     (case GetBooks env w of
        Inl err \<Rightarrow> Returns (Some err, w)
      | Inr books \<Rightarrow>
          (case wantedIndex id' books of
             Inl err \<Rightarrow> Returns (Some err, w)
           | Inr index \<Rightarrow>
               (case remove_at books index of
                  None \<Rightarrow> Panics
                | Some books' \<Rightarrow> Returns (writeData env w books'))))"

text \<open>
  The four guarded assignments of the package-level \<^verbatim>\<open>ChangeBook\<close> through the pointer
  \<^verbatim>\<open>&books[index]\<close>, in the order of the source.
\<close>

definition merge_changed :: "Book \<Rightarrow> Book \<Rightarrow> Book" where
  "merge_changed book changedBook =
     (let b1 = (if Price changedBook \<noteq> 0 then book\<lparr>Price := Price changedBook\<rparr> else book);
          b2 = (if Title changedBook \<noteq> [] then b1\<lparr>Title := Title changedBook\<rparr> else b1);
          b3 = (if Pages changedBook \<noteq> 0 then b2\<lparr>Pages := Pages changedBook\<rparr> else b2);
          b4 = (if Genres changedBook \<noteq> None then b3\<lparr>Genres := Genres changedBook\<rparr> else b3)
      in b4)"

definition ChangeBook ::
  "('bytes, 'db) env \<Rightarrow> ('bytes, 'db) world \<Rightarrow> string \<Rightarrow> Book
     \<Rightarrow> (error option \<times> ('bytes, 'db) world) outcome" where
  "ChangeBook env w id' changedBook =
     (case GetBooks env w of
        Inl err \<Rightarrow> Returns (Some err, w)
      | Inr books \<Rightarrow>
          (case wantedIndex id' books of
             Inl err \<Rightarrow> Returns (Some err, w)
           | Inr index \<Rightarrow>
               (case index_at books index of
                  None \<Rightarrow> Panics
                | Some book \<Rightarrow>
                    Returns (writeData env w (books[index := merge_changed book changedBook])))))"

text \<open>The two \<^verbatim>\<open>range\<close> loops of the package-level \<^verbatim>\<open>PriceFilter\<close>.\<close>

fun above_loop :: "real \<Rightarrow> Books \<Rightarrow> Books \<Rightarrow> Books" where
  "above_loop price wantedBooks [] = wantedBooks"
| "above_loop price wantedBooks (book # books) =
     above_loop price (if Price book > price then wantedBooks @ [book] else wantedBooks) books"

fun below_loop :: "real \<Rightarrow> Books \<Rightarrow> Books \<Rightarrow> Books" where
  "below_loop price wantedBooks [] = wantedBooks"
| "below_loop price wantedBooks (book # books) =
     below_loop price (if Price book < price then wantedBooks @ [book] else wantedBooks) books"

definition PriceFilter ::
  "('bytes, 'db) env \<Rightarrow> ('bytes, 'db) world \<Rightarrow> Filter \<Rightarrow> (error + Books) outcome" where
  "PriceFilter env w filter' =
     (case GetBooks env w of
        Inl err \<Rightarrow> Returns (Inl err)
      | Inr books \<Rightarrow>
          (case index_at (FilterPrice filter') 0 of
             None \<Rightarrow> Panics
           | Some b \<Rightarrow>
               if string_of_byte b = ''>'' then
                 (case slice_from (FilterPrice filter') 1 of
                    None \<Rightarrow> Panics
                  | Some rest \<Rightarrow>
                      (case strconv_ParseFloat env rest of
                         Inl err \<Rightarrow> Returns (Inl err)
                       | Inr price \<Rightarrow> Returns (Inr (above_loop price [] books))))
               else if string_of_byte b = ''<'' then
                 (case slice_from (FilterPrice filter') 1 of
                    None \<Rightarrow> Panics
                  | Some rest \<Rightarrow>
                      (case strconv_ParseFloat env rest of
                         Inl err \<Rightarrow> Returns (Inl err)
                       | Inr price \<Rightarrow> Returns (Inr (below_loop price [] books))))
               else Returns (Inl ErrBadRequest)))"

subsection \<open>The methods of the library facade (lines 192-444)\<close>

definition library_writeData ::
  "('bytes, 'db) env \<Rightarrow> library \<Rightarrow> ('bytes, 'db) world \<Rightarrow> Books
     \<Rightarrow> error option \<times> ('bytes, 'db) world" where
  "library_writeData env l w books =
     (case filepath_Abs env (storage l) of
        Inl err \<Rightarrow> (Some err, w)
      | Inr path \<Rightarrow>
          (case json_MarshalIndent env books of
             Inl err \<Rightarrow> (Some err, w)
           | Inr booksBytes \<Rightarrow> ioutil_WriteFile w path booksBytes))"

text \<open>The method has the body of the package-level \<^verbatim>\<open>wantedIndex\<close>, word for word.\<close>

definition library_wantedIndex :: "library \<Rightarrow> string \<Rightarrow> Books \<Rightarrow> error + nat" where
  "library_wantedIndex l id' books = wantedIndex_loop 0 id' books"

text \<open>
  The file branch ends in \<^verbatim>\<open>return books, json.Unmarshal(file, &books)\<close>. Go leaves
  open whether the operand \<^verbatim>\<open>books\<close> is read before or after the call; the model
  takes it to be read after the call, so that a load without error returns the decoded
  collection, as the first generation does. The callers read \<^verbatim>\<open>books\<close> only when the
  error is nil.
\<close>

definition library_GetBooks ::
  "('bytes, 'db) env \<Rightarrow> library \<Rightarrow> ('bytes, 'db) world \<Rightarrow> error + Books" where
  "library_GetBooks env l w =
     (if useSql l then
        (case InitDB env (db w) of
           Some err \<Rightarrow> Inl err
         | None \<Rightarrow> db_Find env (db w))
      else
        (case filepath_Abs env (storage l) of
           Inl err \<Rightarrow> Inl err
         | Inr path \<Rightarrow>
             (case ioutil_ReadFile w path of
                Inl err \<Rightarrow> Inl err
              | Inr file \<Rightarrow> json_Unmarshal env file)))"

definition library_CreateBook ::
  "('bytes, 'db) env \<Rightarrow> library \<Rightarrow> ('bytes, 'db) world \<Rightarrow> Book
     \<Rightarrow> error option \<times> ('bytes, 'db) world" where
  "library_CreateBook env l w book =
     (if Genres book = None then (Some ErrNotPopulated, w)
      else if Pages book = 0 then (Some ErrNotPopulated, w)
      else if Price book = 0 then (Some ErrNotPopulated, w)
      else if Title book = [] then (Some ErrNotPopulated, w)
      else
        (case new_uuid env w of
           (uuid, w1) \<Rightarrow>
             if useSql l then
               (case InitDB env (db w1) of
                  Some err \<Rightarrow> (Some err, w1)
                | None \<Rightarrow>
                    (case db_Create env (db w1) (book\<lparr>ID := uuid\<rparr>) of
                       (r, d) \<Rightarrow> (r, w1\<lparr>db := d\<rparr>)))
             else
               (case library_GetBooks env l w1 of
                  Inl err \<Rightarrow> (Some err, w1)
                | Inr books \<Rightarrow> library_writeData env l w1 (books @ [book\<lparr>ID := uuid\<rparr>]))))"

definition library_GetBook ::
  "('bytes, 'db) env \<Rightarrow> library \<Rightarrow> ('bytes, 'db) world \<Rightarrow> string \<Rightarrow> error + Book" where
  "library_GetBook env l w id' =
     (if useSql l then
        (case InitDB env (db w) of
           Some err \<Rightarrow> Inl err
         | None \<Rightarrow> db_First env (db w) id')
      else
        (case library_GetBooks env l w of
           Inl err \<Rightarrow> Inl err
         | Inr books \<Rightarrow> GetBook_loop id' books))"


text \<open>
  The four assignments of the method \<^verbatim>\<open>ChangeBook\<close> through \<^verbatim>\<open>&books[index]\<close> (lines
  398-401); they are not guarded.
\<close>

definition assign_changed :: "Book \<Rightarrow> Book \<Rightarrow> Book" where
  "assign_changed book changedBook =
     book\<lparr>Price := Price changedBook, Title := Title changedBook,
          Pages := Pages changedBook, Genres := Genres changedBook\<rparr>"

definition library_ChangeBook ::
  "('bytes, 'db) env \<Rightarrow> library \<Rightarrow> ('bytes, 'db) world \<Rightarrow> string \<Rightarrow> Book
     \<Rightarrow> (error option \<times> ('bytes, 'db) world) outcome" where
  "library_ChangeBook env l w id' changedBook =
     (if useSql l then
        (case InitDB env (db w) of
           Some err \<Rightarrow> Returns (Some err, w)
         | None \<Rightarrow>
             (case db_First env (db w) id' of
                Inl err \<Rightarrow> Returns (Some err, w)
              | Inr book \<Rightarrow>
                  (case db_Save env (db w) changedBook of
                     (r, d) \<Rightarrow> Returns (r, w\<lparr>db := d\<rparr>))))
      else
        (case library_GetBooks env l w of
           Inl err \<Rightarrow> Returns (Some err, w)
         | Inr books \<Rightarrow>
             (case library_wantedIndex l id' books of
                Inl err \<Rightarrow> Returns (Some err, w)
              | Inr index \<Rightarrow>
                  (case index_at books index of
                     None \<Rightarrow> Panics
                   | Some book \<Rightarrow>
                       Returns (library_writeData env l w
                         (books[index := assign_changed book changedBook]))))))"

text \<open>The \<^verbatim>\<open>range\<close> loop of the method \<^verbatim>\<open>PriceFilter\<close> (lines 432-442).\<close>

fun filter_loop :: "string \<Rightarrow> real \<Rightarrow> Books \<Rightarrow> Books \<Rightarrow> Books" where
  "filter_loop operator price wantedBooks [] = wantedBooks"
| "filter_loop operator price wantedBooks (book # books) =
     filter_loop operator price
       (if operator = ''>'' then
          (if Price book > price then wantedBooks @ [book] else wantedBooks)
        else
          (if Price book < price then wantedBooks @ [book] else wantedBooks))
       books"

definition library_PriceFilter ::
  "('bytes, 'db) env \<Rightarrow> library \<Rightarrow> ('bytes, 'db) world \<Rightarrow> BookFilter
     \<Rightarrow> (error + Books) outcome" where
  "library_PriceFilter env l w filter' =
     (if useSql l then Returns (Inl ErrNotImplemented)
      else if length (FilterPrice filter') \<le> 1 then Returns (Inl ErrNotValidData)
      else
        (case index_at (FilterPrice filter') 0 of
           None \<Rightarrow> Panics
         | Some b \<Rightarrow>
             (let operator = string_of_byte b in
                if operator \<noteq> ''<'' \<and> operator \<noteq> ''>'' then
                  Returns (Inl ErrUnsupportedOperation)
                else
                  (case library_GetBooks env l w of
                     Inl err \<Rightarrow> Returns (Inl err)
                   | Inr books \<Rightarrow>
                       (case slice_from (FilterPrice filter') 1 of
                          None \<Rightarrow> Panics
                        | Some rest \<Rightarrow>
                            (case strconv_ParseFloat env rest of
                               Inl err \<Rightarrow> Returns (Inl err)
                             | Inr price \<Rightarrow>
                                 Returns (Inr (filter_loop operator price [] books))))))))"

subsection \<open>A small installation to run the controllers on\<close>

text \<open>
  An environment and a world for evaluating the model: the codec stores the collection
  itself, every path resolves under \<^verbatim>\<open>/srv/\<close>, the number parser knows two literals,
  and the relational store is empty.
\<close>

definition run_env :: "(Books, unit) env" where
  "run_env =
     \<lparr>filepath_Abs = (\<lambda>p. Inr (''/srv/'' @ p)),
      json_MarshalIndent = Inr,
      json_Unmarshal = Inr,
      strconv_ParseFloat =
        (\<lambda>s. if s = ''10'' then Inr 10 else if s = ''9.99'' then Inr (999 / 100)
              else Inl NumError),
      uuid_NewV4 = (\<lambda>n. ''uuid-'' @ replicate (Suc n) (CHR ''x'')),
      InitDB = (\<lambda>d. None),
      db_Find = (\<lambda>d. Inr []),
      db_First = (\<lambda>d i. Inl DBError),
      db_Create = (\<lambda>d b. (None, d)),
      db_Save = (\<lambda>d b. (None, d)),
      db_Delete = (\<lambda>d b. (None, d))\<rparr>"

definition dune :: Book where
  "dune = \<lparr>ID = ''d1'', Title = ''Dune'', Genres = Some [''scifi''], Pages = 412,
           Price = 999 / 100\<rparr>"

definition hyperion :: Book where
  "hyperion = \<lparr>ID = '''', Title = ''Hyperion'', Genres = Some [''scifi''], Pages = 482,
               Price = 25 / 2\<rparr>"

definition run_world :: "Books \<Rightarrow> (Books, unit) world" where
  "run_world books =
     \<lparr>files = [''/srv/storage/storage.json'' \<mapsto> books], unwritable = {}, entropy = 0,
      db = ()\<rparr>"

definition shelf :: Books where
  "shelf = [dune, hyperion\<lparr>ID := ''h1''\<rparr>]"

definition price_patch :: Book where
  "price_patch = \<lparr>ID = '''', Title = '''', Genres = None, Pages = 0, Price = 15\<rparr>"

definition empty_world :: "(Books, unit) world" where
  "empty_world = \<lparr>files = Map.empty, unwritable = {}, entropy = 0, db = ()\<rparr>"

definition file_library :: library where
  "file_library = NewLibrary ''storage/storage.json'' False"

definition sql_library :: library where
  "sql_library = NewLibrary ''storage/storage.json'' True"

subsection \<open>The libraries, as documented\<close>

text \<open>
  Three libraries decide what a stored catalogue looks like when it is read back. They
  are not code of the package; the definitions of this subsection are modelled from the
  documentation of \<^verbatim>\<open>unicode/utf8\<close>, \<^verbatim>\<open>encoding/json\<close> and the UUID library, and
  the properties that read back what a controller wrote are stated for an environment
  whose codec is the documented one (\<open>go_json\<close>).

  \<^verbatim>\<open>utf8.DecodeRuneInString\<close>: \<open>rune_len s\<close> is the width of the encoding the string
  starts with, \<open>None\<close> where the library returns the error rune of width one (no
  encoding, an encoding that is too long, a surrogate, a value above U+10FFFF).
\<close>

definition continuation :: "char \<Rightarrow> bool" where
  "continuation c = (128 \<le> (of_char c :: nat) \<and> (of_char c :: nat) < 192)"

definition second_of_three :: "nat \<Rightarrow> char \<Rightarrow> bool" where
  "second_of_three b0 c1 =
     (let b1 = (of_char c1 :: nat)
      in if b0 = 224 then 160 \<le> b1 \<and> b1 < 192
         else if b0 = 237 then 128 \<le> b1 \<and> b1 < 160
         else 128 \<le> b1 \<and> b1 < 192)"

definition second_of_four :: "nat \<Rightarrow> char \<Rightarrow> bool" where
  "second_of_four b0 c1 =
     (let b1 = (of_char c1 :: nat)
      in if b0 = 240 then 144 \<le> b1 \<and> b1 < 192
         else if b0 = 244 then 128 \<le> b1 \<and> b1 < 144
         else 128 \<le> b1 \<and> b1 < 192)"

fun rune_len :: "string \<Rightarrow> nat option" where
  "rune_len [] = None"
| "rune_len (c0 # cs) =
     (let b0 = (of_char c0 :: nat)
      in if b0 < 128 then Some 1
         else if 194 \<le> b0 \<and> b0 < 224 then
           (case cs of
              c1 # _ \<Rightarrow> if continuation c1 then Some 2 else None
            | _ \<Rightarrow> None)
         else if 224 \<le> b0 \<and> b0 < 240 then
           (case cs of
              c1 # c2 # _ \<Rightarrow>
                if second_of_three b0 c1 \<and> continuation c2 then Some 3 else None
            | _ \<Rightarrow> None)
         else if 240 \<le> b0 \<and> b0 < 245 then
           (case cs of
              c1 # c2 # c3 # _ \<Rightarrow>
                if second_of_four b0 c1 \<and> continuation c2 \<and> continuation c3 then Some 4
                else None
            | _ \<Rightarrow> None)
         else None)"

text \<open>\<^verbatim>\<open>utf8.ValidString\<close>: the string is a sequence of encodings.\<close>

fun valid_utf8 :: "string \<Rightarrow> bool" where
  "valid_utf8 [] = True"
| "valid_utf8 (c # cs) =
     (case rune_len (c # cs) of
        None \<Rightarrow> False
      | Some n \<Rightarrow> valid_utf8 (drop (n - 1) cs))"

text \<open>
  The codec coerces a string to valid UTF-8, writing and reading: every byte that starts
  no encoding becomes the replacement rune U+FFFD (the bytes EF BF BD).
\<close>

definition replacement :: string where
  "replacement = [char_of (239 :: nat), char_of (191 :: nat), char_of (189 :: nat)]"

fun utf8_coerce :: "string \<Rightarrow> string" where
  "utf8_coerce [] = []"
| "utf8_coerce (c # cs) =
     (case rune_len (c # cs) of
        None \<Rightarrow> replacement @ utf8_coerce cs
      | Some n \<Rightarrow> (c # take (n - 1) cs) @ utf8_coerce (drop (n - 1) cs))"

text \<open>
  The storage file holds a JSON document. The document is modelled as the value the
  text denotes: layout, escapes and the digits of a number are not modelled (a float64 is
  written with the fewest digits that read back as the same float64, so a number is the
  value it had).
\<close>

datatype json =
    JNull
  | JBool bool
  | JNumber real
  | JString string
  | JArray "json list"
  | JObject "(string \<times> json) list"

text \<open>
  \<^verbatim>\<open>json.MarshalIndent\<close> of a \<^verbatim>\<open>Books\<close>: an array of objects with the members of the
  persisted format; a string is coerced to valid UTF-8, a nil slice of genres is
  \<^verbatim>\<open>null\<close>. Every value of the model can be encoded.
\<close>

definition encode_string :: "string \<Rightarrow> json" where
  "encode_string s = JString (utf8_coerce s)"

definition encode_genres :: "string list option \<Rightarrow> json" where
  "encode_genres genres =
     (case genres of None \<Rightarrow> JNull | Some gs \<Rightarrow> JArray (map encode_string gs))"

definition encode_book :: "Book \<Rightarrow> json" where
  "encode_book book =
     JObject [(''id'', encode_string (ID book)), (''title'', encode_string (Title book)),
              (''pages'', JNumber (of_int (Pages book))), (''price'', JNumber (Price book)),
              (''genres'', encode_genres (Genres book))]"

definition json_encode :: "Books \<Rightarrow> error + json" where
  "json_encode books = Inr (JArray (map encode_book books))"

text \<open>
  \<^verbatim>\<open>json.Unmarshal\<close> into a nil \<^verbatim>\<open>Books\<close>: \<^verbatim>\<open>null\<close> leaves a value as it is (the zero
  value), a member that is missing leaves its field zero, the last of several members of
  one name counts, a value of the wrong kind is an error, and a number with a fraction
  is an error for the integer field. Names are compared exactly here (the library also
  accepts a name that differs in case).
\<close>

fun collect :: "(error + 'a) list \<Rightarrow> error + 'a list" where
  "collect [] = Inr []"
| "collect (r # rs) =
     (case r of
        Inl err \<Rightarrow> Inl err
      | Inr x \<Rightarrow> (case collect rs of Inl err \<Rightarrow> Inl err | Inr xs \<Rightarrow> Inr (x # xs)))"

definition field_value :: "(string \<times> json) list \<Rightarrow> string \<Rightarrow> json" where
  "field_value members key = (case map_of (rev members) key of None \<Rightarrow> JNull | Some v \<Rightarrow> v)"

definition decode_string :: "json \<Rightarrow> error + string" where
  "decode_string v =
     (case v of JNull \<Rightarrow> Inr [] | JString s \<Rightarrow> Inr (utf8_coerce s) | _ \<Rightarrow> Inl JSONError)"

definition decode_int :: "json \<Rightarrow> error + int" where
  "decode_int v =
     (case v of
        JNull \<Rightarrow> Inr 0
      | JNumber x \<Rightarrow> if of_int \<lfloor>x\<rfloor> = x then Inr \<lfloor>x\<rfloor> else Inl JSONError
      | _ \<Rightarrow> Inl JSONError)"

definition decode_float :: "json \<Rightarrow> error + real" where
  "decode_float v = (case v of JNull \<Rightarrow> Inr 0 | JNumber x \<Rightarrow> Inr x | _ \<Rightarrow> Inl JSONError)"

definition decode_genres :: "json \<Rightarrow> error + string list option" where
  "decode_genres v =
     (case v of
        JNull \<Rightarrow> Inr None
      | JArray vs \<Rightarrow>
          (case collect (map decode_string vs) of Inl err \<Rightarrow> Inl err | Inr gs \<Rightarrow> Inr (Some gs))
      | _ \<Rightarrow> Inl JSONError)"

definition decode_book :: "json \<Rightarrow> error + Book" where
  "decode_book v =
     (case v of
        JNull \<Rightarrow> Inr \<lparr>ID = [], Title = [], Genres = None, Pages = 0, Price = 0\<rparr>
      | JObject members \<Rightarrow>
          (case decode_string (field_value members ''id'') of
             Inl err \<Rightarrow> Inl err
           | Inr i \<Rightarrow>
          (case decode_string (field_value members ''title'') of
             Inl err \<Rightarrow> Inl err
           | Inr t \<Rightarrow>
          (case decode_int (field_value members ''pages'') of
             Inl err \<Rightarrow> Inl err
           | Inr p \<Rightarrow>
          (case decode_float (field_value members ''price'') of
             Inl err \<Rightarrow> Inl err
           | Inr x \<Rightarrow>
          (case decode_genres (field_value members ''genres'') of
             Inl err \<Rightarrow> Inl err
           | Inr g \<Rightarrow> Inr \<lparr>ID = i, Title = t, Genres = g, Pages = p, Price = x\<rparr>)))))
      | _ \<Rightarrow> Inl JSONError)"

definition json_decode :: "json \<Rightarrow> error + Books" where
  "json_decode v =
     (case v of
        JNull \<Rightarrow> Inr []
      | JArray vs \<Rightarrow> collect (map decode_book vs)
      | _ \<Rightarrow> Inl JSONError)"

text \<open>An environment with the documented codec; every other library stays a parameter.\<close>

definition go_json :: "('bytes, 'db) env \<Rightarrow> (json, 'db) env" where
  "go_json env =
     \<lparr>filepath_Abs = filepath_Abs env,
      json_MarshalIndent = json_encode,
      json_Unmarshal = json_decode,
      strconv_ParseFloat = strconv_ParseFloat env,
      uuid_NewV4 = uuid_NewV4 env,
      InitDB = InitDB env,
      db_Find = db_Find env,
      db_First = db_First env,
      db_Create = db_Create env,
      db_Save = db_Save env,
      db_Delete = db_Delete env\<rparr>"

text \<open>
  What the codec does to a book, and the books it leaves as they are: those whose
  strings are valid UTF-8.
\<close>

definition coerce_book :: "Book \<Rightarrow> Book" where
  "coerce_book book =
     book\<lparr>ID := utf8_coerce (ID book), Title := utf8_coerce (Title book),
          Genres := map_option (map utf8_coerce) (Genres book)\<rparr>"

definition utf8_book :: "Book \<Rightarrow> bool" where
  "utf8_book book =
     (valid_utf8 (ID book) \<and> valid_utf8 (Title book) \<and>
      (case Genres book of None \<Rightarrow> True | Some gs \<Rightarrow> list_all valid_utf8 gs))"

text \<open>
  The string of a UUID, in the canonical form the UUID library prints: the sixteen bytes
  in lower-case hexadecimal, in groups of 4, 2, 2, 2 and 6 bytes with a hyphen between
  the groups.
\<close>

definition hex_digit :: "nat \<Rightarrow> char" where
  "hex_digit d = ''0123456789abcdef'' ! (d mod 16)"

definition hex_byte :: "nat \<Rightarrow> string" where
  "hex_byte b = [hex_digit (b div 16), hex_digit b]"

definition uuid_String :: "nat list \<Rightarrow> string" where
  "uuid_String bs =
     concat (map hex_byte (take 4 bs)) @ ''-'' @
     concat (map hex_byte (take 2 (drop 4 bs))) @ ''-'' @
     concat (map hex_byte (take 2 (drop 6 bs))) @ ''-'' @
     concat (map hex_byte (take 2 (drop 8 bs))) @ ''-'' @
     concat (map hex_byte (drop 10 bs))"

subsection \<open>An installation with the documented codec\<close>

text \<open>
  As \<open>run_env\<close>, with the documented codec and a generator of version-4 UUIDs whose last
  byte is the state of the random source; the storage file holds the document of the
  catalogue.
\<close>

definition json_env :: "(json, unit) env" where
  "json_env =
     \<lparr>filepath_Abs = (\<lambda>p. Inr (''/srv/'' @ p)),
      json_MarshalIndent = json_encode,
      json_Unmarshal = json_decode,
      strconv_ParseFloat = (\<lambda>s. if s = ''10'' then Inr 10 else Inl NumError),
      uuid_NewV4 = (\<lambda>n. uuid_String [0, 0, 0, 0, 0, 0, 64, 0, 128, 0, 0, 0, 0, 0, 0, n]),
      InitDB = (\<lambda>d. None),
      db_Find = (\<lambda>d. Inr []),
      db_First = (\<lambda>d i. Inl DBError),
      db_Create = (\<lambda>d b. (None, d)),
      db_Save = (\<lambda>d b. (None, d)),
      db_Delete = (\<lambda>d b. (None, d))\<rparr>"

definition json_world :: "Books \<Rightarrow> (json, unit) world" where
  "json_world books =
     \<lparr>files = [''/srv/storage/storage.json'' \<mapsto> JArray (map encode_book books)],
      unwritable = {}, entropy = 0, db = ()\<rparr>"

definition first_uuid :: string where
  "first_uuid = ''00000000-0000-4000-8000-000000000000''"

definition broken_title :: string where
  "broken_title = [char_of (255 :: nat)]"

definition dune_again :: Book where
  "dune_again = dune\<lparr>Title := ''Dune Messiah''\<rparr>"

section \<open>Properties\<close>

subsection \<open>The loops\<close>

lemma above_loop_filter:
  "above_loop price acc books = acc @ filter (\<lambda>b. Price b > price) books"
  by (induction books arbitrary: acc) simp_all

lemma below_loop_filter:
  "below_loop price acc books = acc @ filter (\<lambda>b. Price b < price) books"
  by (induction books arbitrary: acc) simp_all

lemma filter_loop_above:
  "filter_loop ''>'' price acc books = acc @ filter (\<lambda>b. Price b > price) books"
  by (induction books arbitrary: acc) simp_all

lemma filter_loop_below:
  "filter_loop ''<'' price acc books = acc @ filter (\<lambda>b. Price b < price) books"
  by (induction books arbitrary: acc) simp_all


lemma GetBook_loop_append:
  "id' \<notin> ID ` set books \<Longrightarrow> GetBook_loop id' (books @ rest) = GetBook_loop id' rest"
  by (induction books) auto

text \<open>
  A successful \<^verbatim>\<open>wantedIndex\<close> returns the position of the first book with the
  identifier; the position is inside the slice.
\<close>

lemma wantedIndex_loop_found:
  "wantedIndex_loop k id' books = Inr i \<Longrightarrow>
     k \<le> i \<and> i - k < length books \<and> ID (books ! (i - k)) = id' \<and>
     (\<forall>j < i - k. ID (books ! j) \<noteq> id')"
proof (induction books arbitrary: k)
  case Nil
  then show ?case by simp
next
  case (Cons b bs)
  show ?case
  proof (cases "id' = ID b")
    case True
    with Cons.prems show ?thesis by simp
  next
    case False
    with Cons.prems have r: "wantedIndex_loop (Suc k) id' bs = Inr i" by simp
    from Cons.IH [OF r] have a: "Suc k \<le> i" "i - Suc k < length bs"
      "ID (bs ! (i - Suc k)) = id'" "\<forall>j < i - Suc k. ID (bs ! j) \<noteq> id'" by auto
    from a(1) have e: "i - k = Suc (i - Suc k)" by arith
    show ?thesis using a False e by (auto simp: nth_Cons split: nat.splits)
  qed
qed

lemma wantedIndex_loop_0:
  "wantedIndex_loop 0 id' books = Inr i \<Longrightarrow>
     i < length books \<and> ID (books ! i) = id' \<and> (\<forall>j < i. ID (books ! j) \<noteq> id')"
  using wantedIndex_loop_found [of 0 id' books i] by simp

lemma wantedIndex_loop_absent:
  "id' \<notin> ID ` set books \<Longrightarrow> wantedIndex_loop k id' books = Inl ErrNotFound"
  by (induction books arbitrary: k) auto

lemma wantedIndex_loop_present:
  "id' \<in> ID ` set books \<Longrightarrow> \<exists>i. wantedIndex_loop k id' books = Inr i"
  by (induction books arbitrary: k) auto



lemma string_of_byte_single:
  "string_of_byte b = [c] \<longleftrightarrow> b = c \<and> (of_char b :: nat) < 128"
  by (simp add: string_of_byte_def Let_def)

lemma string_of_byte_above [simp]: "string_of_byte b = ''>'' \<longleftrightarrow> b = CHR ''>''"
  by (auto simp: string_of_byte_single)

lemma string_of_byte_below [simp]: "string_of_byte b = ''<'' \<longleftrightarrow> b = CHR ''<''"
  by (auto simp: string_of_byte_single)

lemma string_of_byte_operators [simp]:
  "string_of_byte (CHR ''>'') = ''>''" "string_of_byte (CHR ''<'') = ''<''"
  by (simp_all add: string_of_byte_def)

lemma ID_merge_changed [simp]: "ID (merge_changed book changedBook) = ID book"
  by (simp add: merge_changed_def Let_def)

lemma ID_assign_changed [simp]: "ID (assign_changed book changedBook) = ID book"
  by (simp add: assign_changed_def)

subsection \<open>UTF-8\<close>

lemma rune_len_range: "rune_len s = Some n \<Longrightarrow> 0 < n \<and> n \<le> length s"
  by (cases s) (auto simp: Let_def split: if_splits list.splits)

lemma rune_len_prefix:
  "rune_len (c # cs) = Some n \<Longrightarrow> rune_len ((c # take (n - 1) cs) @ t) = Some n"
  by (auto simp: Let_def split: if_splits list.splits)

lemma rune_len_replacement: "rune_len (replacement @ t) = Some 3"
  by (simp add: replacement_def Let_def second_of_three_def continuation_def)

lemma valid_utf8_replacement: "valid_utf8 (replacement @ t) = valid_utf8 t"
  using rune_len_replacement [of t] by (simp add: replacement_def)

lemma valid_utf8_rune:
  assumes "rune_len (c # cs) = Some n"
  shows "valid_utf8 ((c # take (n - 1) cs) @ t) = valid_utf8 t"
proof -
  from rune_len_range [OF assms] have "n - 1 \<le> length cs" by auto
  then have "drop (n - 1) (take (n - 1) cs @ t) = t" by simp
  with rune_len_prefix [OF assms, of t] show ?thesis by simp
qed

text \<open>A coerced string is valid, and a valid string is not changed.\<close>

lemma valid_utf8_coerce: "valid_utf8 (utf8_coerce s)"
proof (induction s rule: utf8_coerce.induct)
  case 1
  then show ?case by simp
next
  case (2 c cs)
  show ?case
  proof (cases "rune_len (c # cs)")
    case None
    with 2 show ?thesis by (simp add: valid_utf8_replacement del: rune_len.simps)
  next
    case (Some n)
    with 2 show ?thesis
      using valid_utf8_rune [OF Some] by (simp del: rune_len.simps valid_utf8.simps)
  qed
qed

lemma utf8_coerce_valid: "valid_utf8 s \<Longrightarrow> utf8_coerce s = s"
proof (induction s rule: utf8_coerce.induct)
  case 1
  then show ?case by simp
next
  case (2 c cs)
  from 2(3) obtain n where n: "rune_len (c # cs) = Some n" "valid_utf8 (drop (n - 1) cs)"
    by (auto simp del: rune_len.simps split: option.splits)
  from 2(2) [OF n] have "utf8_coerce (drop (n - 1) cs) = drop (n - 1) cs" .
  with n(1) show ?case by (simp del: rune_len.simps)
qed

lemma utf8_coerce_fixed: "utf8_coerce s = s \<longleftrightarrow> valid_utf8 s"
  using valid_utf8_coerce [of s] utf8_coerce_valid [of s] by auto

lemma utf8_coerce_idem: "utf8_coerce (utf8_coerce s) = utf8_coerce s"
  by (simp add: utf8_coerce_valid valid_utf8_coerce)

lemma valid_utf8_ascii: "\<forall>c \<in> set s. (of_char c :: nat) < 128 \<Longrightarrow> valid_utf8 s"
  by (induction s) (auto simp: Let_def)

subsection \<open>The codec\<close>

lemma collect_Inr:
  "collect rs = Inr xs \<Longrightarrow> list_all2 (\<lambda>r x. r = Inr x) rs xs"
  by (induction rs arbitrary: xs) (auto split: sum.splits)

lemma decode_encode_string: "decode_string (encode_string s) = Inr (utf8_coerce s)"
  by (simp add: decode_string_def encode_string_def utf8_coerce_idem)

lemma collect_decode_strings:
  "collect (map decode_string (map encode_string gs)) = Inr (map utf8_coerce gs)"
  by (induction gs) (simp_all add: decode_encode_string)

lemma decode_encode_genres:
  "decode_genres (encode_genres genres) = Inr (map_option (map utf8_coerce) genres)"
  by (cases genres)
    (simp_all add: decode_genres_def encode_genres_def collect_decode_strings del: map_map)

lemma decode_encode_book: "decode_book (encode_book book) = Inr (coerce_book book)"
  by (simp add: decode_book_def encode_book_def field_value_def decode_encode_string
      decode_encode_genres decode_int_def decode_float_def coerce_book_def)

lemma collect_decode_books:
  "collect (map decode_book (map encode_book books)) = Inr (map coerce_book books)"
  by (induction books) (simp_all add: decode_encode_book)

text \<open>Decoding what was encoded gives the books with their strings coerced.\<close>

lemma json_decode_encode:
  "json_decode (JArray (map encode_book books)) = Inr (map coerce_book books)"
  by (simp add: json_decode_def collect_decode_books del: map_map)

lemma coerce_book_fields:
  "ID (coerce_book b) = utf8_coerce (ID b)" "Title (coerce_book b) = utf8_coerce (Title b)"
  "Pages (coerce_book b) = Pages b" "Price (coerce_book b) = Price b"
  "Genres (coerce_book b) = map_option (map utf8_coerce) (Genres b)"
  by (simp_all add: coerce_book_def)

lemma coerce_book_fixed: "coerce_book book = book \<longleftrightarrow> utf8_book book"
proof -
  have g: "map utf8_coerce gs = gs \<longleftrightarrow> list_all valid_utf8 gs" for gs
    by (induction gs) (auto simp: utf8_coerce_fixed)
  have "coerce_book book = book \<longleftrightarrow>
      utf8_coerce (ID book) = ID book \<and> utf8_coerce (Title book) = Title book \<and>
      map_option (map utf8_coerce) (Genres book) = Genres book"
    by (cases book) (auto simp: coerce_book_def)
  then show ?thesis
    by (cases "Genres book") (auto simp: utf8_book_def utf8_coerce_fixed g)
qed

lemma map_coerce_book_fixed: "map coerce_book books = books \<longleftrightarrow> list_all utf8_book books"
  by (induction books) (auto simp: coerce_book_fixed)

text \<open>Every string the decoder returns is valid UTF-8.\<close>

lemma decode_string_utf8: "decode_string v = Inr s \<Longrightarrow> valid_utf8 s"
  by (auto simp: decode_string_def valid_utf8_coerce split: json.splits)

lemma decode_genres_utf8:
  assumes "decode_genres v = Inr (Some gs)"
  shows "list_all valid_utf8 gs"
proof -
  from assms obtain vs where c: "collect (map decode_string vs) = Inr gs"
    by (auto simp: decode_genres_def split: json.splits sum.splits)
  from collect_Inr [OF c] have "list_all2 (\<lambda>r x. r = Inr x) (map decode_string vs) gs" .
  then have "\<forall>g \<in> set gs. \<exists>v. decode_string v = Inr g"
    by (auto simp: list_all2_conv_all_nth in_set_conv_nth) metis
  then show ?thesis by (auto simp: list_all_iff dest: decode_string_utf8)
qed

lemma decode_book_utf8: "decode_book v = Inr book \<Longrightarrow> utf8_book book"
  by (auto simp: decode_book_def utf8_book_def split: json.splits sum.splits option.splits
      dest: decode_string_utf8 decode_genres_utf8)

lemma json_decode_utf8:
  assumes "json_decode v = Inr books"
  shows "list_all utf8_book books"
proof (cases v)
  case (JArray vs)
  with assms have c: "collect (map decode_book vs) = Inr books" by (simp add: json_decode_def)
  from collect_Inr [OF c] have "list_all2 (\<lambda>r x. r = Inr x) (map decode_book vs) books" .
  then have "\<forall>b \<in> set books. \<exists>v. decode_book v = Inr b"
    by (auto simp: list_all2_conv_all_nth in_set_conv_nth) metis
  then show ?thesis by (auto simp: list_all_iff dest: decode_book_utf8)
qed (use assms in \<open>auto simp: json_decode_def\<close>)

subsection \<open>Identifiers\<close>

lemma hex_digit_ascii: "(of_char (hex_digit d) :: nat) < 128"
proof -
  have "hex_digit d \<in> set ''0123456789abcdef''"
    unfolding hex_digit_def by (rule nth_mem) simp
  then show ?thesis by auto
qed

lemma uuid_String_ascii: "c \<in> set (uuid_String bs) \<Longrightarrow> (of_char c :: nat) < 128"
  by (auto simp: uuid_String_def hex_byte_def hex_digit_ascii)

lemma uuid_String_utf8: "valid_utf8 (uuid_String bs)"
  by (rule valid_utf8_ascii) (simp add: uuid_String_ascii)

lemma uuid_String_nonempty: "uuid_String bs \<noteq> []"
  by (simp add: uuid_String_def)

lemma uuid_String_length: "length bs = 16 \<Longrightarrow> length (uuid_String bs) = 36"
  by (simp add: uuid_String_def length_concat comp_def hex_byte_def sum_list_triv)

lemma uuid_first:
  "uuid_NewV4 json_env 0 = first_uuid"
  "first_uuid = uuid_String [0, 0, 0, 0, 0, 0, 64, 0, 128, 0, 0, 0, 0, 0, 0, 0]"
  by (simp_all add: json_env_def first_uuid_def uuid_String_def hex_byte_def hex_digit_def)

subsection \<open>Saving and loading\<close>

lemma library_GetBooks_entropy:
  "library_GetBooks env l (w\<lparr>entropy := n\<rparr>) = library_GetBooks env l w"
  by (simp add: library_GetBooks_def ioutil_ReadFile_def split: option.splits sum.splits)

lemma library_writeData_succeeds:
  assumes "filepath_Abs env (storage l) = Inr path" and "json_MarshalIndent env books = Inr data"
    and "path \<notin> unwritable w"
  shows "library_writeData env l w books = (None, w\<lparr>files := (files w)(path \<mapsto> data)\<rparr>)"
  using assms by (simp add: library_writeData_def ioutil_WriteFile_def)

lemma go_json_fields:
  "json_MarshalIndent (go_json env) = json_encode" "json_Unmarshal (go_json env) = json_decode"
  "filepath_Abs (go_json env) = filepath_Abs env" "uuid_NewV4 (go_json env) = uuid_NewV4 env"
  by (simp_all add: go_json_def)

lemma go_json_env: "go_json json_env = json_env"
  by (simp add: go_json_def json_env_def)

lemma library_writeData_json:
  assumes "filepath_Abs env (storage l) = Inr path" and "path \<notin> unwritable w"
  shows "library_writeData (go_json env) l w books =
     (None, w\<lparr>files := (files w)(path \<mapsto> JArray (map encode_book books))\<rparr>)"
  using assms
  by (simp add: library_writeData_def ioutil_WriteFile_def json_encode_def go_json_fields)


lemma library_GetBooks_json:
  assumes "\<not> useSql l" and "filepath_Abs env (storage l) = Inr path"
    and "files w path = Some (JArray (map encode_book books))"
  shows "library_GetBooks (go_json env) l w = Inr (map coerce_book books)"
  using assms
  by (simp add: library_GetBooks_def ioutil_ReadFile_def json_decode_encode go_json_fields)

text \<open>The strings of a catalogue loaded from the file store are valid UTF-8.\<close>

lemma library_GetBooks_utf8:
  assumes "\<not> useSql l" and "library_GetBooks (go_json env) l w = Inr books"
  shows "list_all utf8_book books"
proof -
  from assms obtain v where "json_decode v = Inr books"
    by (auto simp: library_GetBooks_def go_json_fields split: sum.splits)
  then show ?thesis by (rule json_decode_utf8)
qed

text \<open>
  The method \<^verbatim>\<open>writeData\<close> and the file branch of the method \<^verbatim>\<open>GetBooks\<close> resolve
  the same path, the write replaces the whole file, and the load decodes what it reads.
\<close>

lemma library_save_load_json:
  assumes "\<not> useSql l" and "library_writeData (go_json env) l w books = (None, w')"
  shows "library_GetBooks (go_json env) l w' = Inr (map coerce_book books)"
proof -
  from assms(2) obtain path where p: "filepath_Abs env (storage l) = Inr path"
    and w': "w' = w\<lparr>files := (files w)(path \<mapsto> JArray (map encode_book books))\<rparr>"
    by (auto simp: library_writeData_def ioutil_WriteFile_def json_encode_def go_json_fields
        split: sum.splits if_splits)
  show ?thesis
    using library_GetBooks_json [OF assms(1) p, of w' books] w' by simp
qed

lemma json_env_fields:
  "filepath_Abs json_env (storage file_library) = Inr ''/srv/storage/storage.json''"
  "\<not> useSql file_library"
  by (simp_all add: json_env_def file_library_def NewLibrary_def)

lemma json_world_save:
  "library_writeData json_env file_library (json_world []) books
     = (None, snd (library_writeData json_env file_library (json_world []) books))"
  "fst (library_writeData json_env file_library (json_world []) books) = None"
  using library_writeData_json [OF json_env_fields(1), of "json_world []" books]
  by (simp_all add: json_world_def go_json_env)

lemma json_world_load:
  "library_GetBooks json_env file_library ((json_world books)\<lparr>entropy := n\<rparr>)
     = Inr (map coerce_book books)"
  "library_GetBooks json_env file_library (json_world books) = Inr (map coerce_book books)"
  using library_GetBooks_json [OF json_env_fields(2,1), of "(json_world books)\<lparr>entropy := n\<rparr>" books]
    library_GetBooks_json [OF json_env_fields(2,1), of "json_world books" books]
  by (simp_all add: json_world_def go_json_env)

lemma coerce_fixtures:
  "coerce_book dune = dune" "coerce_book hyperion = hyperion"
  "coerce_book (b\<lparr>ID := first_uuid\<rparr>) = (coerce_book b)\<lparr>ID := first_uuid\<rparr>"
  "coerce_book (hyperion\<lparr>Title := broken_title\<rparr>) = hyperion\<lparr>Title := replacement\<rparr>"
  "coerce_book (dune\<lparr>Title := broken_title\<rparr>) = dune\<lparr>Title := replacement\<rparr>"
  "coerce_book (hyperion\<lparr>ID := ''h1''\<rparr>) = hyperion\<lparr>ID := ''h1''\<rparr>"
  "coerce_book dune_again = dune_again"
  by (simp_all add: coerce_book_def dune_def hyperion_def first_uuid_def broken_title_def
      dune_again_def Let_def)

text \<open>
  C7, as amended. On the file store, with the codec as documented: a collection that
  was saved is loaded next as the same records in the same order, with the same pages
  and prices, and with every string (identifier, title, genre) coerced to valid UTF-8.
  The collection loaded is the collection saved exactly when all its strings are valid
  UTF-8; this is so for every collection that was itself loaded.
\<close>

theorem library_save_then_load:
  assumes onfile: "\<not> useSql l"
    and saved: "library_writeData (go_json env) l w books = (None, w')"
  shows "library_GetBooks (go_json env) l w' = Inr (map coerce_book books) \<and>
     length (map coerce_book books) = length books \<and>
     map Pages (map coerce_book books) = map Pages books \<and>
     map Price (map coerce_book books) = map Price books \<and>
     (list_all utf8_book books \<longrightarrow> library_GetBooks (go_json env) l w' = Inr books) \<and>
     (\<not> list_all utf8_book books \<longrightarrow> library_GetBooks (go_json env) l w' \<noteq> Inr books) \<and>
     (library_GetBooks (go_json env) l w = Inr books \<longrightarrow>
        library_GetBooks (go_json env) l w' = Inr books)"
proof -
  have reload: "library_GetBooks (go_json env) l w' = Inr (map coerce_book books)"
    using library_save_load_json [OF onfile saved] .
  have loaded: "list_all utf8_book books" if "library_GetBooks (go_json env) l w = Inr books"
    using library_GetBooks_utf8 [OF onfile that] .
  show ?thesis
    using reload loaded map_coerce_book_fixed [of books]
    by (auto simp: coerce_book_fields comp_def)
qed

theorem library_save_then_load_witness:
  "fst (library_writeData json_env file_library (json_world []) [dune, hyperion]) = None \<and>
   list_all utf8_book [dune, hyperion] \<and>
   library_GetBooks json_env file_library
       (snd (library_writeData json_env file_library (json_world []) [dune, hyperion]))
     = Inr [dune, hyperion]"
proof -
  have u: "list_all utf8_book [dune, hyperion]"
    using coerce_fixtures(1,2) by (simp add: coerce_book_fixed)
  from library_save_then_load [of file_library json_env "json_world []" "[dune, hyperion]"
      "snd (library_writeData json_env file_library (json_world []) [dune, hyperion])"]
    json_env_fields(2) json_world_save(1)
  have "list_all utf8_book [dune, hyperion] \<longrightarrow>
      library_GetBooks json_env file_library
       (snd (library_writeData json_env file_library (json_world []) [dune, hyperion]))
     = Inr [dune, hyperion]"
    by (simp only: go_json_env) blast
  with u json_world_save(2) show ?thesis by blast
qed

text \<open>
  C7 as stated fails: a title that is the single byte FF is not valid UTF-8; the
  collection is saved without error and comes back with the replacement rune as the
  title.
\<close>

theorem library_save_then_load_not_utf8:
  "fst (library_writeData json_env file_library (json_world []) [dune\<lparr>Title := broken_title\<rparr>])
     = None \<and>
   library_GetBooks json_env file_library
       (snd (library_writeData json_env file_library (json_world [])
          [dune\<lparr>Title := broken_title\<rparr>]))
     = Inr [dune\<lparr>Title := replacement\<rparr>] \<and>
   dune\<lparr>Title := replacement\<rparr> \<noteq> dune\<lparr>Title := broken_title\<rparr>"
proof -
  let ?b = "[dune\<lparr>Title := broken_title\<rparr>]"
  have n: "dune\<lparr>Title := replacement\<rparr> \<noteq> dune\<lparr>Title := broken_title\<rparr>"
    by (simp add: dune_def replacement_def broken_title_def)
  from library_save_load_json [OF json_env_fields(2), of json_env "json_world []" ?b
      "snd (library_writeData json_env file_library (json_world []) ?b)"] json_world_save(1)
  have "library_GetBooks json_env file_library
       (snd (library_writeData json_env file_library (json_world []) ?b))
     = Inr [dune\<lparr>Title := replacement\<rparr>]"
    by (simp add: go_json_env coerce_fixtures)
  with n json_world_save(2) show ?thesis by blast
qed

subsection \<open>Creating a book\<close>

lemma library_CreateBook_file:
  assumes "\<not> useSql l" and "Genres book \<noteq> None" and "Pages book \<noteq> 0" and "Price book \<noteq> 0"
    and "Title book \<noteq> []"
  shows "library_CreateBook env l w book =
     (case library_GetBooks env l w of
        Inl err \<Rightarrow> (Some err, w\<lparr>entropy := Suc (entropy w)\<rparr>)
      | Inr books \<Rightarrow>
          library_writeData env l (w\<lparr>entropy := Suc (entropy w)\<rparr>)
            (books @ [book\<lparr>ID := uuid_NewV4 env (entropy w)\<rparr>]))"
  using assms
  by (auto simp add: library_CreateBook_def new_uuid_def library_GetBooks_entropy
      split: sum.splits)

lemma CreateBook_populated:
  assumes "Genres book \<noteq> None" and "Pages book \<noteq> 0" and "Price book \<noteq> 0"
    and "Title book \<noteq> []"
  shows "CreateBook env w book =
     (case GetBooks env w of
        Inl err \<Rightarrow> (Some err, w)
      | Inr books \<Rightarrow>
          writeData env (w\<lparr>entropy := Suc (entropy w)\<rparr>)
            (books @ [book\<lparr>ID := uuid_NewV4 env (entropy w)\<rparr>]))"
  using assms
  by (auto simp add: CreateBook_def new_uuid_def split: sum.splits)

lemma library_CreateBook_rejects:
  "Genres book = None \<or> Pages book = 0 \<or> Price book = 0 \<or> Title book = [] \<Longrightarrow>
     library_CreateBook env l w book = (Some ErrNotPopulated, w)"
  by (auto simp: library_CreateBook_def)

lemma CreateBook_rejects:
  "Genres book = None \<or> Pages book = 0 \<or> Price book = 0 \<or> Title book = [] \<Longrightarrow>
     CreateBook env w book = (Some ErrNotPopulated, w)"
  by (auto simp: CreateBook_def)

text \<open>
  C1, as amended. On the file store, for a valid candidate (title not empty, pages and
  price positive, genres not empty) whose title and genres are valid UTF-8, with a
  catalogue that loads and a file that can be written, the method \<open>CreateBook\<close> returns
  the nil error, and nothing else: the identifier is not returned. The identifier the
  candidate carries is ignored; the stored record is the candidate with the identifier
  just drawn from the UUID generator, the string of a UUID, which is not empty. The
  catalogue loaded afterwards is the old one with that one record appended, and
  \<open>GetBook\<close> on the drawn identifier yields the record (equal to the candidate in every
  other field), unless a book of the catalogue carries that identifier already.
\<close>

theorem library_CreateBook_then_GetBook:
  assumes onfile: "\<not> useSql l"
    and valid: "Title book \<noteq> []" "0 < Pages book" "0 < Price book"
      "Genres book = Some genres" "genres \<noteq> []"
    and utf8: "valid_utf8 (Title book)" "list_all valid_utf8 genres"
    and load: "library_GetBooks (go_json env) l w = Inr books"
    and path: "filepath_Abs env (storage l) = Inr path" "path \<notin> unwritable w"
    and uuid: "uuid = uuid_NewV4 env (entropy w)" "uuid = uuid_String bytes"
  shows "fst (library_CreateBook (go_json env) l w book) = None \<and>
     (\<forall>given. library_CreateBook (go_json env) l w (book\<lparr>ID := given\<rparr>)
        = library_CreateBook (go_json env) l w book) \<and>
     uuid \<noteq> [] \<and>
     library_GetBooks (go_json env) l (snd (library_CreateBook (go_json env) l w book))
       = Inr (books @ [book\<lparr>ID := uuid\<rparr>]) \<and>
     (uuid \<notin> ID ` set books \<longrightarrow>
        library_GetBook (go_json env) l (snd (library_CreateBook (go_json env) l w book)) uuid
          = Inr (book\<lparr>ID := uuid\<rparr>))"
proof -
  let ?new = "book\<lparr>ID := uuid\<rparr>"
  let ?w1 = "w\<lparr>entropy := Suc (entropy w)\<rparr>"
  let ?w' = "?w1\<lparr>files := (files ?w1)(path \<mapsto> JArray (map encode_book (books @ [?new])))\<rparr>"
  have run: "library_CreateBook (go_json env) l w book = (None, ?w')"
    using onfile valid load path uuid(1)
    by (simp add: library_CreateBook_file library_writeData_json go_json_fields)
  have same: "library_CreateBook (go_json env) l w (book\<lparr>ID := given\<rparr>)
      = library_CreateBook (go_json env) l w book" for given
    by (simp add: library_CreateBook_def new_uuid_def split: sum.splits option.splits prod.splits)
  have "utf8_book ?new"
    using utf8 valid(4) uuid(2) by (simp add: utf8_book_def uuid_String_utf8)
  moreover have "list_all utf8_book books"
    using library_GetBooks_utf8 [OF onfile load] .
  ultimately have "map coerce_book (books @ [?new]) = books @ [?new]"
    by (simp add: map_coerce_book_fixed coerce_book_fixed)
  then have reload: "library_GetBooks (go_json env) l ?w' = Inr (books @ [?new])"
    using library_GetBooks_json [OF onfile path(1), of ?w' "books @ [?new]"] by simp
  have get: "library_GetBook (go_json env) l ?w' uuid = Inr ?new" if "uuid \<notin> ID ` set books"
    using that onfile reload by (simp add: library_GetBook_def GetBook_loop_append)
  have "uuid \<noteq> []" using uuid(2) by (simp add: uuid_String_nonempty)
  then show ?thesis using run same reload get by simp
qed

theorem library_CreateBook_then_GetBook_witness:
  "\<not> useSql file_library \<and>
   library_GetBooks json_env file_library (json_world [dune]) = Inr [dune] \<and>
   fst (library_CreateBook json_env file_library (json_world [dune]) hyperion) = None \<and>
   first_uuid \<noteq> [] \<and>
   library_GetBooks json_env file_library
       (snd (library_CreateBook json_env file_library (json_world [dune]) hyperion))
     = Inr [dune, hyperion\<lparr>ID := first_uuid\<rparr>] \<and>
   library_GetBook json_env file_library
       (snd (library_CreateBook json_env file_library (json_world [dune]) hyperion)) first_uuid
     = Inr (hyperion\<lparr>ID := first_uuid\<rparr>)"
proof -
  have g: "library_GetBooks (go_json json_env) file_library (json_world [dune]) = Inr [dune]"
    by (simp add: go_json_env json_world_load coerce_fixtures)
  have v: "Title hyperion \<noteq> []" "0 < Pages hyperion" "0 < Price hyperion"
    "Genres hyperion = Some [''scifi'']" "[''scifi''] \<noteq> []"
    "valid_utf8 (Title hyperion)" "list_all valid_utf8 [''scifi'']"
    by (simp_all add: hyperion_def Let_def)
  have p: "''/srv/storage/storage.json'' \<notin> unwritable (json_world [dune])"
    "first_uuid = uuid_NewV4 json_env (entropy (json_world [dune]))"
    by (simp_all add: json_world_def uuid_first)
  have n: "first_uuid \<notin> ID ` set [dune]" by (simp add: dune_def first_uuid_def)
  from library_CreateBook_then_GetBook [OF json_env_fields(2) v g json_env_fields(1) p
      uuid_first(2)] n g json_env_fields(2)
  show ?thesis by (simp add: go_json_env)
qed

lemma json_world_create:
  assumes "Genres book \<noteq> None" and "Pages book \<noteq> 0" and "Price book \<noteq> 0" and "Title book \<noteq> []"
  shows "library_CreateBook json_env file_library (json_world books) book
     = (None, (json_world (map coerce_book books @ [book\<lparr>ID := first_uuid\<rparr>]))\<lparr>entropy := 1\<rparr>)"
proof -
  have e: "entropy (json_world books) = 0"
    "''/srv/storage/storage.json'' \<notin> unwritable ((json_world books)\<lparr>entropy := Suc 0\<rparr>)"
    by (simp_all add: json_world_def)
  show ?thesis
    using assms library_writeData_json [OF json_env_fields(1) e(2)]
    by (simp add: library_CreateBook_file [OF json_env_fields(2)] json_world_load e(1) uuid_first
        go_json_env)
      (simp add: json_world_def)
qed

text \<open>
  C1 as stated fails. The value \<open>CreateBook\<close> returns is the nil error in two runs that
  assign different identifiers, so it does not carry the identifier. Without a storage
  file, or with one that cannot be written, the valid candidate is not stored. When the identifier drawn is the one a book of
  the catalogue carries, \<open>GetBook\<close> on it yields that book, not the candidate. A
  candidate whose title is the byte FF is stored with the replacement rune as its title.
\<close>

theorem library_CreateBook_returns_no_identifier:
  "fst (library_CreateBook run_env file_library (run_world [dune]) hyperion) = None \<and>
   fst (library_CreateBook run_env file_library ((run_world [dune])\<lparr>entropy := 1\<rparr>) hyperion) = None \<and>
   map ID (projr (library_GetBooks run_env file_library
       (snd (library_CreateBook run_env file_library (run_world [dune]) hyperion))))
     = [''d1'', ''uuid-x''] \<and>
   map ID (projr (library_GetBooks run_env file_library
       (snd (library_CreateBook run_env file_library ((run_world [dune])\<lparr>entropy := 1\<rparr>) hyperion))))
     = [''d1'', ''uuid-xx''] \<and>
   fst (library_CreateBook run_env file_library empty_world hyperion) = Some PathError \<and>
   fst (library_CreateBook run_env file_library
       ((run_world [dune])\<lparr>unwritable := {''/srv/storage/storage.json''}\<rparr>) hyperion)
     = Some PathError \<and>
   fst (library_CreateBook json_env file_library (json_world [dune\<lparr>ID := first_uuid\<rparr>]) hyperion)
     = None \<and>
   library_GetBook json_env file_library
       (snd (library_CreateBook json_env file_library (json_world [dune\<lparr>ID := first_uuid\<rparr>])
          hyperion)) first_uuid
     = Inr (dune\<lparr>ID := first_uuid\<rparr>) \<and>
   Title (dune\<lparr>ID := first_uuid\<rparr>) \<noteq> Title hyperion \<and>
   fst (library_CreateBook json_env file_library (json_world [dune])
       (hyperion\<lparr>Title := broken_title\<rparr>)) = None \<and>
   library_GetBook json_env file_library
       (snd (library_CreateBook json_env file_library (json_world [dune])
          (hyperion\<lparr>Title := broken_title\<rparr>))) first_uuid
     = Inr (hyperion\<lparr>ID := first_uuid, Title := replacement\<rparr>) \<and>
   replacement \<noteq> broken_title"
proof -
  have a: "fst (library_CreateBook run_env file_library (run_world [dune]) hyperion) = None \<and>
   fst (library_CreateBook run_env file_library ((run_world [dune])\<lparr>entropy := 1\<rparr>) hyperion) = None \<and>
   map ID (projr (library_GetBooks run_env file_library
       (snd (library_CreateBook run_env file_library (run_world [dune]) hyperion))))
     = [''d1'', ''uuid-x''] \<and>
   map ID (projr (library_GetBooks run_env file_library
       (snd (library_CreateBook run_env file_library ((run_world [dune])\<lparr>entropy := 1\<rparr>) hyperion))))
     = [''d1'', ''uuid-xx''] \<and>
   fst (library_CreateBook run_env file_library empty_world hyperion) = Some PathError \<and>
   fst (library_CreateBook run_env file_library
       ((run_world [dune])\<lparr>unwritable := {''/srv/storage/storage.json''}\<rparr>) hyperion)
     = Some PathError"
    by (simp add: library_CreateBook_def new_uuid_def library_GetBooks_def library_writeData_def
      ioutil_ReadFile_def ioutil_WriteFile_def file_library_def NewLibrary_def hyperion_def
      dune_def run_env_def run_world_def empty_world_def numeral_2_eq_2)
  have pop: "Genres hyperion \<noteq> None" "Pages hyperion \<noteq> 0" "Price hyperion \<noteq> 0"
    "Title hyperion \<noteq> []"
    by (simp_all add: hyperion_def)
  have pop': "Genres (hyperion\<lparr>Title := broken_title\<rparr>) \<noteq> None"
    "Pages (hyperion\<lparr>Title := broken_title\<rparr>) \<noteq> 0"
    "Price (hyperion\<lparr>Title := broken_title\<rparr>) \<noteq> 0"
    "Title (hyperion\<lparr>Title := broken_title\<rparr>) \<noteq> []"
    by (simp_all add: hyperion_def broken_title_def)
  have b: "library_CreateBook json_env file_library (json_world [dune\<lparr>ID := first_uuid\<rparr>]) hyperion
      = (None, (json_world [dune\<lparr>ID := first_uuid\<rparr>, hyperion\<lparr>ID := first_uuid\<rparr>])\<lparr>entropy := 1\<rparr>)"
    by (simp add: json_world_create [OF pop] coerce_fixtures)
  have c: "library_CreateBook json_env file_library (json_world [dune])
       (hyperion\<lparr>Title := broken_title\<rparr>)
      = (None, (json_world [dune, hyperion\<lparr>Title := broken_title, ID := first_uuid\<rparr>])\<lparr>entropy := 1\<rparr>)"
    by (simp add: json_world_create [OF pop'] coerce_fixtures)
  have d: "replacement \<noteq> broken_title" by (simp add: replacement_def broken_title_def)
  show ?thesis
    using a d
    by (simp add: b c library_GetBook_def json_env_fields json_world_load coerce_fixtures
        del: One_nat_def)
      (simp add: dune_def hyperion_def first_uuid_def)
qed

text \<open>
  C2, as amended. Both \<open>CreateBook\<close> functions reject a candidate whose genres are nil,
  whose pages or price are zero or whose title is empty with the error "not all fields
  are populated", before an identifier is drawn and before the store is read or written:
  the world is returned as it was. A candidate they accept has genres that are not nil,
  pages and price other than zero and a title that is not empty, and what is written on
  the file store is the loaded catalogue with that one record appended. (The checks
  compare with zero: a negative price is accepted.)
\<close>

theorem CreateBook_validation:
  "(Genres book = None \<or> Pages book = 0 \<or> Price book = 0 \<or> Title book = [] \<longrightarrow>
      library_CreateBook env l w book = (Some ErrNotPopulated, w) \<and>
      CreateBook env w book = (Some ErrNotPopulated, w)) \<and>
   (fst (library_CreateBook env l w book) = None \<or> fst (CreateBook env w book) = None \<longrightarrow>
      Genres book \<noteq> None \<and> Pages book \<noteq> 0 \<and> Price book \<noteq> 0 \<and> Title book \<noteq> []) \<and>
   (\<not> useSql l \<and> library_CreateBook env l w book = (None, w') \<longrightarrow>
      (\<exists>books. library_GetBooks env l w = Inr books \<and>
         library_writeData env l (w\<lparr>entropy := Suc (entropy w)\<rparr>)
           (books @ [book\<lparr>ID := uuid_NewV4 env (entropy w)\<rparr>]) = (None, w'))) \<and>
   (CreateBook env w book = (None, w'') \<longrightarrow>
      (\<exists>books. GetBooks env w = Inr books \<and>
         writeData env (w\<lparr>entropy := Suc (entropy w)\<rparr>)
           (books @ [book\<lparr>ID := uuid_NewV4 env (entropy w)\<rparr>]) = (None, w'')))"
proof -
  have rejected: "library_CreateBook env l w book = (Some ErrNotPopulated, w) \<and>
      CreateBook env w book = (Some ErrNotPopulated, w)"
    if "Genres book = None \<or> Pages book = 0 \<or> Price book = 0 \<or> Title book = []"
    using that by (simp add: library_CreateBook_rejects CreateBook_rejects)
  have populated: "Genres book \<noteq> None \<and> Pages book \<noteq> 0 \<and> Price book \<noteq> 0 \<and> Title book \<noteq> []"
    if "fst (library_CreateBook env l w book) = None \<or> fst (CreateBook env w book) = None"
  proof (rule ccontr)
    assume "\<not> ?thesis"
    then have "Genres book = None \<or> Pages book = 0 \<or> Price book = 0 \<or> Title book = []"
      by blast
    from rejected [OF this] that show False by simp
  qed
  have on_file: "\<exists>books. library_GetBooks env l w = Inr books \<and>
         library_writeData env l (w\<lparr>entropy := Suc (entropy w)\<rparr>)
           (books @ [book\<lparr>ID := uuid_NewV4 env (entropy w)\<rparr>]) = (None, w')"
    if a: "\<not> useSql l \<and> library_CreateBook env l w book = (None, w')"
  proof -
    from a have "fst (library_CreateBook env l w book) = None" by simp
    with populated have "Genres book \<noteq> None \<and> Pages book \<noteq> 0 \<and> Price book \<noteq> 0 \<and> Title book \<noteq> []"
      by blast
    with a show ?thesis by (auto simp: library_CreateBook_file split: sum.splits)
  qed
  have package: "\<exists>books. GetBooks env w = Inr books \<and>
         writeData env (w\<lparr>entropy := Suc (entropy w)\<rparr>)
           (books @ [book\<lparr>ID := uuid_NewV4 env (entropy w)\<rparr>]) = (None, w'')"
    if a: "CreateBook env w book = (None, w'')"
  proof -
    from a have "fst (CreateBook env w book) = None" by simp
    with populated have "Genres book \<noteq> None \<and> Pages book \<noteq> 0 \<and> Price book \<noteq> 0 \<and> Title book \<noteq> []"
      by blast
    with a show ?thesis by (auto simp: CreateBook_populated split: sum.splits)
  qed
  show ?thesis using rejected populated on_file package by blast
qed

theorem CreateBook_validation_witness:
  "Pages (hyperion\<lparr>Pages := 0\<rparr>) = 0 \<and>
   library_CreateBook run_env file_library (run_world [dune]) (hyperion\<lparr>Pages := 0\<rparr>)
     = (Some ErrNotPopulated, run_world [dune]) \<and>
   CreateBook run_env (run_world [dune]) (hyperion\<lparr>Pages := 0\<rparr>)
     = (Some ErrNotPopulated, run_world [dune]) \<and>
   library_CreateBook run_env file_library (run_world [dune]) hyperion
     = (None, (run_world [dune, hyperion\<lparr>ID := ''uuid-x''\<rparr>])\<lparr>entropy := 1\<rparr>) \<and>
   CreateBook run_env (run_world [dune]) hyperion
     = (None, (run_world [dune, hyperion\<lparr>ID := ''uuid-x''\<rparr>])\<lparr>entropy := 1\<rparr>) \<and>
   Genres hyperion \<noteq> None \<and> Pages hyperion \<noteq> 0 \<and> Price hyperion \<noteq> 0 \<and> Title hyperion \<noteq> [] \<and>
   (\<exists>books. library_GetBooks run_env file_library (run_world [dune]) = Inr books \<and>
      library_writeData run_env file_library ((run_world [dune])\<lparr>entropy := 1\<rparr>)
        (books @ [hyperion\<lparr>ID := uuid_NewV4 run_env 0\<rparr>])
        = (None, (run_world [dune, hyperion\<lparr>ID := ''uuid-x''\<rparr>])\<lparr>entropy := 1\<rparr>))"
proof -
  have l: "library_CreateBook run_env file_library (run_world [dune]) hyperion
     = (None, (run_world [dune, hyperion\<lparr>ID := ''uuid-x''\<rparr>])\<lparr>entropy := 1\<rparr>)"
    by (simp add: library_CreateBook_def new_uuid_def library_GetBooks_def library_writeData_def
      ioutil_ReadFile_def ioutil_WriteFile_def file_library_def NewLibrary_def hyperion_def
      dune_def run_env_def run_world_def)
  have p: "CreateBook run_env (run_world [dune]) hyperion
     = (None, (run_world [dune, hyperion\<lparr>ID := ''uuid-x''\<rparr>])\<lparr>entropy := 1\<rparr>)"
    by (simp add: CreateBook_def new_uuid_def GetBooks_def writeData_def
      ioutil_ReadFile_def ioutil_WriteFile_def hyperion_def
      dune_def run_env_def run_world_def)
  have f: "\<not> useSql file_library" by (simp add: file_library_def NewLibrary_def)
  have e: "entropy (run_world [dune]) = 0" by (simp add: run_world_def)
  show ?thesis
    using CreateBook_validation [of "hyperion\<lparr>Pages := 0\<rparr>" run_env file_library "run_world [dune]"]
      CreateBook_validation [of hyperion run_env file_library "run_world [dune]"
        "(run_world [dune, hyperion\<lparr>ID := ''uuid-x''\<rparr>])\<lparr>entropy := 1\<rparr>"
        "(run_world [dune, hyperion\<lparr>ID := ''uuid-x''\<rparr>])\<lparr>entropy := 1\<rparr>"] l p f e
    by simp
qed

text \<open>
  C2 as stated fails: a candidate with the price -1 is not rejected; both functions
  store it, and the catalogue then holds a record whose price is negative.
\<close>

theorem CreateBook_stores_negative_price:
  "Price (hyperion\<lparr>Price := - 1\<rparr>) < 0 \<and>
   library_CreateBook run_env file_library (run_world [dune]) (hyperion\<lparr>Price := - 1\<rparr>)
     = (None, (run_world [dune, hyperion\<lparr>ID := ''uuid-x'', Price := - 1\<rparr>])\<lparr>entropy := 1\<rparr>) \<and>
   CreateBook run_env (run_world [dune]) (hyperion\<lparr>Price := - 1\<rparr>)
     = (None, (run_world [dune, hyperion\<lparr>ID := ''uuid-x'', Price := - 1\<rparr>])\<lparr>entropy := 1\<rparr>) \<and>
   library_GetBooks run_env file_library
       ((run_world [dune, hyperion\<lparr>ID := ''uuid-x'', Price := - 1\<rparr>])\<lparr>entropy := 1\<rparr>)
     = Inr [dune, hyperion\<lparr>ID := ''uuid-x'', Price := - 1\<rparr>]"
  by (simp add: library_CreateBook_def new_uuid_def library_GetBooks_def library_writeData_def
      CreateBook_def GetBooks_def writeData_def
      ioutil_ReadFile_def ioutil_WriteFile_def file_library_def NewLibrary_def hyperion_def
      dune_def run_env_def run_world_def)

subsection \<open>Changing a book\<close>

lemma library_ChangeBook_present:
  assumes "\<not> useSql l" and "library_GetBooks env l w = Inr books" and "id' \<in> ID ` set books"
  shows "\<exists>index < length books. ID (books ! index) = id' \<and>
     library_ChangeBook env l w id' changedBook =
       Returns (library_writeData env l w
         (books[index := assign_changed (books ! index) changedBook]))"
proof -
  from wantedIndex_loop_present [OF assms(3)]
  obtain i where i: "wantedIndex_loop 0 id' books = Inr i" by blast
  from wantedIndex_loop_0 [OF i] have "i < length books" "ID (books ! i) = id'" by simp_all
  moreover have "library_ChangeBook env l w id' changedBook =
       Returns (library_writeData env l w (books[i := assign_changed (books ! i) changedBook]))"
    using assms(1,2) i \<open>i < length books\<close>
    by (simp add: library_ChangeBook_def library_wantedIndex_def index_at_def)
  ultimately show ?thesis by blast
qed

text \<open>
  The package-level \<^verbatim>\<open>ChangeBook\<close> writes the catalogue with the target merged: a field
  of the patch replaces the target's when it is not zero, not empty, not nil.
\<close>

lemma ChangeBook_present:
  assumes "GetBooks env w = Inr books" and "id' \<in> ID ` set books"
  shows "\<exists>index < length books. ID (books ! index) = id' \<and>
     ChangeBook env w id' changedBook =
       Returns (writeData env w (books[index := merge_changed (books ! index) changedBook]))"
proof -
  from wantedIndex_loop_present [OF assms(2)]
  obtain i where i: "wantedIndex_loop 0 id' books = Inr i" by blast
  from wantedIndex_loop_0 [OF i] have "i < length books" "ID (books ! i) = id'" by simp_all
  moreover have "ChangeBook env w id' changedBook =
       Returns (writeData env w (books[i := merge_changed (books ! i) changedBook]))"
    using assms(1) i \<open>i < length books\<close>
    by (simp add: ChangeBook_def wantedIndex_def index_at_def)
  ultimately show ?thesis by blast
qed

lemma merge_changed_fields:
  "Price (merge_changed book changedBook)
     = (if Price changedBook \<noteq> 0 then Price changedBook else Price book)"
  "Title (merge_changed book changedBook)
     = (if Title changedBook \<noteq> [] then Title changedBook else Title book)"
  "Pages (merge_changed book changedBook)
     = (if Pages changedBook \<noteq> 0 then Pages changedBook else Pages book)"
  "Genres (merge_changed book changedBook)
     = (if Genres changedBook \<noteq> None then Genres changedBook else Genres book)"
  by (simp_all add: merge_changed_def Let_def)

lemma ChangeBook_absent:
  "GetBooks env w = Inr books \<Longrightarrow> id' \<notin> ID ` set books \<Longrightarrow>
     ChangeBook env w id' changedBook = Returns (Some ErrNotFound, w)"
  by (simp add: ChangeBook_def wantedIndex_def wantedIndex_loop_absent)

lemma library_ChangeBook_absent:
  "\<not> useSql l \<Longrightarrow> library_GetBooks env l w = Inr books \<Longrightarrow> id' \<notin> ID ` set books \<Longrightarrow>
     library_ChangeBook env l w id' changedBook = Returns (Some ErrNotFound, w)"
  by (simp add: library_ChangeBook_def library_wantedIndex_def wantedIndex_loop_absent)

text \<open>
  C3 fails on the method \<open>ChangeBook\<close> of the facade. On the catalogue that holds Dune
  (412 pages, price 9.99, genre scifi), a patch that carries only the price 15 leaves a
  record with the empty title, no pages and nil genres: the method assigns all four
  fields without looking at them. The package-level \<open>ChangeBook\<close>, run on the same
  input, changes the price alone.
\<close>

theorem library_ChangeBook_price_patch:
  "library_ChangeBook run_env file_library (run_world [dune]) ''d1'' price_patch
     = Returns (None, run_world [\<lparr>ID = ''d1'', Title = '''', Genres = None, Pages = 0, Price = 15\<rparr>]) \<and>
   ChangeBook run_env (run_world [dune]) ''d1'' price_patch
     = Returns (None, run_world [dune\<lparr>Price := 15\<rparr>])"
  by (simp add: library_ChangeBook_def library_wantedIndex_def index_at_def assign_changed_def
      library_GetBooks_def library_writeData_def ChangeBook_def wantedIndex_def merge_changed_def
      GetBooks_def writeData_def ioutil_ReadFile_def ioutil_WriteFile_def
      file_library_def NewLibrary_def run_env_def run_world_def dune_def price_patch_def)

text \<open>
  C9. \<open>ChangeBook\<close> on the file store, for an identifier of the loaded catalogue: the
  collection handed to \<open>writeData\<close> is the loaded one with the record at one position
  replaced by a record of the same identifier. Its length is that of the loaded
  catalogue, its identifiers are the same in the same order, and the record at every
  other position is the record that was loaded. This holds for the method and for the
  package-level function.
\<close>

theorem ChangeBook_frame:
  "(\<not> useSql l \<and> library_GetBooks env l w = Inr books \<and> id' \<in> ID ` set books \<longrightarrow>
      (\<exists>index book'. index < length books \<and> ID (books ! index) = id' \<and> ID book' = id' \<and>
         library_ChangeBook env l w id' changedBook
           = Returns (library_writeData env l w (books[index := book'])) \<and>
         length (books[index := book']) = length books \<and>
         map ID (books[index := book']) = map ID books \<and>
         (\<forall>j < length books. j \<noteq> index \<longrightarrow> books[index := book'] ! j = books ! j))) \<and>
   (GetBooks env w = Inr books \<and> id' \<in> ID ` set books \<longrightarrow>
      (\<exists>index book'. index < length books \<and> ID (books ! index) = id' \<and> ID book' = id' \<and>
         ChangeBook env w id' changedBook
           = Returns (writeData env w (books[index := book'])) \<and>
         length (books[index := book']) = length books \<and>
         map ID (books[index := book']) = map ID books \<and>
         (\<forall>j < length books. j \<noteq> index \<longrightarrow> books[index := book'] ! j = books ! j)))"
proof (intro conjI impI)
  assume "\<not> useSql l \<and> library_GetBooks env l w = Inr books \<and> id' \<in> ID ` set books"
  then obtain i where i: "i < length books" "ID (books ! i) = id'"
    and run: "library_ChangeBook env l w id' changedBook =
       Returns (library_writeData env l w (books[i := assign_changed (books ! i) changedBook]))"
    using library_ChangeBook_present [of l env w books id' changedBook] by blast
  let ?b = "assign_changed (books ! i) changedBook"
  have "ID ?b = id'" using i by simp
  moreover have "map ID (books[i := ?b]) = map ID books"
    using i by (simp add: map_update list_update_same_conv)
  ultimately show "\<exists>index book'. index < length books \<and> ID (books ! index) = id' \<and> ID book' = id' \<and>
         library_ChangeBook env l w id' changedBook
           = Returns (library_writeData env l w (books[index := book'])) \<and>
         length (books[index := book']) = length books \<and>
         map ID (books[index := book']) = map ID books \<and>
         (\<forall>j < length books. j \<noteq> index \<longrightarrow> books[index := book'] ! j = books ! j)"
    using i run by (intro exI [of _ i] exI [of _ ?b]) simp
next
  assume "GetBooks env w = Inr books \<and> id' \<in> ID ` set books"
  then obtain i where i: "i < length books" "ID (books ! i) = id'"
    and run: "ChangeBook env w id' changedBook =
       Returns (writeData env w (books[i := merge_changed (books ! i) changedBook]))"
    using ChangeBook_present [of env w books id' changedBook] by blast
  let ?b = "merge_changed (books ! i) changedBook"
  have "ID ?b = id'" using i by simp
  moreover have "map ID (books[i := ?b]) = map ID books"
    using i by (simp add: map_update list_update_same_conv)
  ultimately show "\<exists>index book'. index < length books \<and> ID (books ! index) = id' \<and> ID book' = id' \<and>
         ChangeBook env w id' changedBook
           = Returns (writeData env w (books[index := book'])) \<and>
         length (books[index := book']) = length books \<and>
         map ID (books[index := book']) = map ID books \<and>
         (\<forall>j < length books. j \<noteq> index \<longrightarrow> books[index := book'] ! j = books ! j)"
    using i run by (intro exI [of _ i] exI [of _ ?b]) simp
qed

theorem ChangeBook_frame_witness:
  "library_GetBooks run_env file_library (run_world shelf) = Inr shelf \<and>
   GetBooks run_env (run_world shelf) = Inr shelf \<and>
   ''h1'' \<in> ID ` set shelf \<and>
   (\<exists>index book'. index < length shelf \<and> ID (shelf ! index) = ''h1'' \<and> ID book' = ''h1'' \<and>
      library_ChangeBook run_env file_library (run_world shelf) ''h1'' price_patch
        = Returns (library_writeData run_env file_library (run_world shelf) (shelf[index := book'])) \<and>
      length (shelf[index := book']) = length shelf \<and>
      map ID (shelf[index := book']) = map ID shelf \<and>
      (\<forall>j < length shelf. j \<noteq> index \<longrightarrow> shelf[index := book'] ! j = shelf ! j)) \<and>
   (\<exists>index book'. index < length shelf \<and> ID (shelf ! index) = ''h1'' \<and> ID book' = ''h1'' \<and>
      ChangeBook run_env (run_world shelf) ''h1'' price_patch
        = Returns (writeData run_env (run_world shelf) (shelf[index := book'])) \<and>
      length (shelf[index := book']) = length shelf \<and>
      map ID (shelf[index := book']) = map ID shelf \<and>
      (\<forall>j < length shelf. j \<noteq> index \<longrightarrow> shelf[index := book'] ! j = shelf ! j))"
proof -
  have f: "\<not> useSql file_library" by (simp add: file_library_def NewLibrary_def)
  have g: "library_GetBooks run_env file_library (run_world shelf) = Inr shelf"
    by (simp add: library_GetBooks_def ioutil_ReadFile_def file_library_def NewLibrary_def
        run_env_def run_world_def)
  have h: "GetBooks run_env (run_world shelf) = Inr shelf"
    by (simp add: GetBooks_def ioutil_ReadFile_def run_env_def run_world_def)
  have m: "''h1'' \<in> ID ` set shelf" by (simp add: shelf_def)
  show ?thesis
    using ChangeBook_frame [of file_library run_env "run_world shelf" shelf "''h1''" price_patch]
      f g h m by blast
qed

subsection \<open>Removing a book\<close>






subsection \<open>Filtering by price\<close>

lemma library_PriceFilter_operator:
  assumes "\<not> useSql l" and "rest \<noteq> []" and "b = CHR ''>'' \<or> b = CHR ''<''"
  shows "library_PriceFilter env l w \<lparr>FilterPrice = b # rest\<rparr> =
     (case library_GetBooks env l w of
        Inl err \<Rightarrow> Returns (Inl err)
      | Inr books \<Rightarrow>
          (case strconv_ParseFloat env rest of
             Inl err \<Rightarrow> Returns (Inl err)
           | Inr price \<Rightarrow> Returns (Inr (filter_loop [b] price [] books))))"
  using assms
  by (auto simp: library_PriceFilter_def index_at_def slice_from_def Let_def
      split: sum.splits)

lemma PriceFilter_nonempty:
  "PriceFilter env w \<lparr>FilterPrice = b # rest\<rparr> =
     (case GetBooks env w of
        Inl err \<Rightarrow> Returns (Inl err)
      | Inr books \<Rightarrow>
          if b = CHR ''>'' then
            (case strconv_ParseFloat env rest of
               Inl err \<Rightarrow> Returns (Inl err)
             | Inr price \<Rightarrow> Returns (Inr (above_loop price [] books)))
          else if b = CHR ''<'' then
            (case strconv_ParseFloat env rest of
               Inl err \<Rightarrow> Returns (Inl err)
             | Inr price \<Rightarrow> Returns (Inr (below_loop price [] books)))
          else Returns (Inl ErrBadRequest))"
  by (simp add: PriceFilter_def index_at_def slice_from_def split: sum.splits)

text \<open>
  C4. For a catalogue that loads and an expression made of \<^verbatim>\<open>>\<close> (or \<^verbatim>\<open><\<close>) and a
  remainder that parses as the number \<open>n\<close>, \<open>PriceFilter\<close> returns the books of the
  catalogue whose price is greater than \<open>n\<close> (less than \<open>n\<close>), in the order of the
  catalogue: the list \<open>filter\<close> of the comparison. This holds for the method on the file
  store, whose length check asks for a remainder that is not empty, and for the
  package-level function.
\<close>

theorem PriceFilter_subsequence:
  "(\<not> useSql l \<and> library_GetBooks env l w = Inr books \<and> rest \<noteq> [] \<and>
      strconv_ParseFloat env rest = Inr n \<longrightarrow>
      library_PriceFilter env l w \<lparr>FilterPrice = CHR ''>'' # rest\<rparr>
        = Returns (Inr (filter (\<lambda>book. Price book > n) books)) \<and>
      library_PriceFilter env l w \<lparr>FilterPrice = CHR ''<'' # rest\<rparr>
        = Returns (Inr (filter (\<lambda>book. Price book < n) books))) \<and>
   (GetBooks env w = Inr books' \<and> strconv_ParseFloat env rest = Inr n \<longrightarrow>
      PriceFilter env w \<lparr>FilterPrice = CHR ''>'' # rest\<rparr>
        = Returns (Inr (filter (\<lambda>book. Price book > n) books')) \<and>
      PriceFilter env w \<lparr>FilterPrice = CHR ''<'' # rest\<rparr>
        = Returns (Inr (filter (\<lambda>book. Price book < n) books')))"
  by (simp add: library_PriceFilter_operator PriceFilter_nonempty filter_loop_above
      filter_loop_below above_loop_filter below_loop_filter)

theorem PriceFilter_subsequence_witness:
  "library_GetBooks run_env file_library (run_world [dune, hyperion, dune\<lparr>Price := 11\<rparr>])
     = Inr [dune, hyperion, dune\<lparr>Price := 11\<rparr>] \<and>
   strconv_ParseFloat run_env ''10'' = Inr 10 \<and>
   library_PriceFilter run_env file_library (run_world [dune, hyperion, dune\<lparr>Price := 11\<rparr>])
       \<lparr>FilterPrice = ''>10''\<rparr> = Returns (Inr [hyperion, dune\<lparr>Price := 11\<rparr>]) \<and>
   library_PriceFilter run_env file_library (run_world [dune, hyperion, dune\<lparr>Price := 11\<rparr>])
       \<lparr>FilterPrice = ''<10''\<rparr> = Returns (Inr [dune]) \<and>
   PriceFilter run_env (run_world [dune, hyperion, dune\<lparr>Price := 11\<rparr>])
       \<lparr>FilterPrice = ''>10''\<rparr> = Returns (Inr [hyperion, dune\<lparr>Price := 11\<rparr>]) \<and>
   PriceFilter run_env (run_world [dune, hyperion, dune\<lparr>Price := 11\<rparr>])
       \<lparr>FilterPrice = ''<10''\<rparr> = Returns (Inr [dune])"
  using PriceFilter_subsequence [of file_library run_env
      "run_world [dune, hyperion, dune\<lparr>Price := 11\<rparr>]" "[dune, hyperion, dune\<lparr>Price := 11\<rparr>]"
      "''10''" 10 "[dune, hyperion, dune\<lparr>Price := 11\<rparr>]"]
  by (simp add: file_library_def NewLibrary_def library_GetBooks_def GetBooks_def
      ioutil_ReadFile_def run_env_def run_world_def dune_def hyperion_def)

text \<open>
  C5, as amended. The method \<open>PriceFilter\<close> on the file store returns "Not valid data"
  for an expression of length at most one and "unsupported operation" for a longer one
  whose first byte is neither \<^verbatim>\<open>>\<close> nor \<^verbatim>\<open><\<close>, in any world: the store is not read.
  For a longer expression with an operator and a remainder that does not parse, it loads
  the catalogue first: it returns the load error when the load fails, and the parser's
  error, whatever the catalogue holds, when the load succeeds. The package-level
  function loads the catalogue before it looks at the expression; for an expression that
  is not empty it then returns "bad request" when the first byte is not an operator and
  the parser's error when the remainder does not parse.
\<close>

theorem PriceFilter_errors:
  "(\<not> useSql l \<and> length (FilterPrice filter') \<le> 1 \<longrightarrow>
      library_PriceFilter env l w filter' = Returns (Inl ErrNotValidData)) \<and>
   (\<not> useSql l \<and> rest \<noteq> [] \<and> b \<noteq> CHR ''>'' \<and> b \<noteq> CHR ''<'' \<longrightarrow>
      library_PriceFilter env l w \<lparr>FilterPrice = b # rest\<rparr> = Returns (Inl ErrUnsupportedOperation)) \<and>
   (\<not> useSql l \<and> rest \<noteq> [] \<and> (b = CHR ''>'' \<or> b = CHR ''<'') \<and>
      strconv_ParseFloat env rest = Inl err \<longrightarrow>
      library_PriceFilter env l w \<lparr>FilterPrice = b # rest\<rparr> =
        (case library_GetBooks env l w of
           Inl ioerr \<Rightarrow> Returns (Inl ioerr)
         | Inr books \<Rightarrow> Returns (Inl err))) \<and>
   (b \<noteq> CHR ''>'' \<and> b \<noteq> CHR ''<'' \<longrightarrow>
      PriceFilter env w \<lparr>FilterPrice = b # rest\<rparr> =
        (case GetBooks env w of
           Inl ioerr \<Rightarrow> Returns (Inl ioerr)
         | Inr books \<Rightarrow> Returns (Inl ErrBadRequest))) \<and>
   ((b = CHR ''>'' \<or> b = CHR ''<'') \<and> strconv_ParseFloat env rest = Inl err \<longrightarrow>
      PriceFilter env w \<lparr>FilterPrice = b # rest\<rparr> =
        (case GetBooks env w of
           Inl ioerr \<Rightarrow> Returns (Inl ioerr)
         | Inr books \<Rightarrow> Returns (Inl err)))"
proof (intro conjI impI)
  assume "\<not> useSql l \<and> length (FilterPrice filter') \<le> 1"
  then show "library_PriceFilter env l w filter' = Returns (Inl ErrNotValidData)"
    by (simp add: library_PriceFilter_def)
next
  assume "\<not> useSql l \<and> rest \<noteq> [] \<and> b \<noteq> CHR ''>'' \<and> b \<noteq> CHR ''<''"
  then show "library_PriceFilter env l w \<lparr>FilterPrice = b # rest\<rparr>
      = Returns (Inl ErrUnsupportedOperation)"
    by (simp add: library_PriceFilter_def index_at_def Let_def)
next
  assume "\<not> useSql l \<and> rest \<noteq> [] \<and> (b = CHR ''>'' \<or> b = CHR ''<'') \<and>
      strconv_ParseFloat env rest = Inl err"
  then show "library_PriceFilter env l w \<lparr>FilterPrice = b # rest\<rparr> =
        (case library_GetBooks env l w of
           Inl ioerr \<Rightarrow> Returns (Inl ioerr)
         | Inr books \<Rightarrow> Returns (Inl err))"
    by (simp add: library_PriceFilter_operator split: sum.splits)
next
  assume "b \<noteq> CHR ''>'' \<and> b \<noteq> CHR ''<''"
  then show "PriceFilter env w \<lparr>FilterPrice = b # rest\<rparr> =
        (case GetBooks env w of
           Inl ioerr \<Rightarrow> Returns (Inl ioerr)
         | Inr books \<Rightarrow> Returns (Inl ErrBadRequest))"
    by (simp add: PriceFilter_nonempty split: sum.splits)
next
  assume "(b = CHR ''>'' \<or> b = CHR ''<'') \<and> strconv_ParseFloat env rest = Inl err"
  then show "PriceFilter env w \<lparr>FilterPrice = b # rest\<rparr> =
        (case GetBooks env w of
           Inl ioerr \<Rightarrow> Returns (Inl ioerr)
         | Inr books \<Rightarrow> Returns (Inl err))"
    by (auto simp add: PriceFilter_nonempty split: sum.splits)
qed

theorem PriceFilter_errors_witness:
  "library_PriceFilter run_env file_library empty_world \<lparr>FilterPrice = ''>''\<rparr>
     = Returns (Inl ErrNotValidData) \<and>
   library_PriceFilter run_env file_library empty_world \<lparr>FilterPrice = ''=5''\<rparr>
     = Returns (Inl ErrUnsupportedOperation) \<and>
   strconv_ParseFloat run_env ''abc'' = Inl NumError \<and>
   library_PriceFilter run_env file_library (run_world [dune]) \<lparr>FilterPrice = ''>abc''\<rparr>
     = Returns (Inl NumError) \<and>
   PriceFilter run_env (run_world [dune]) \<lparr>FilterPrice = ''=5''\<rparr>
     = Returns (Inl ErrBadRequest) \<and>
   PriceFilter run_env (run_world [dune]) \<lparr>FilterPrice = ''>abc''\<rparr>
     = Returns (Inl NumError)"
  using PriceFilter_errors [of file_library "\<lparr>FilterPrice = ''>''\<rparr>" run_env empty_world
      "''5''" "CHR ''=''"]
    PriceFilter_errors [of file_library "\<lparr>FilterPrice = ''>''\<rparr>" run_env "run_world [dune]"
      "''abc''" "CHR ''>''" NumError]
    PriceFilter_errors [of file_library "\<lparr>FilterPrice = ''>''\<rparr>" run_env "run_world [dune]"
      "''5''" "CHR ''=''" NumError]
  by (simp add: file_library_def NewLibrary_def library_GetBooks_def GetBooks_def
      ioutil_ReadFile_def run_env_def run_world_def empty_world_def)

text \<open>
  C5 as stated fails: the remainder of \<^verbatim>\<open>>abc\<close> does not parse, and yet, where the
  storage file cannot be read, the method returns the error of the read, not a parse
  error: the catalogue is loaded before the number is parsed.
\<close>

theorem library_PriceFilter_load_error_first:
  "strconv_ParseFloat run_env ''abc'' = Inl NumError \<and>
   library_PriceFilter run_env file_library empty_world \<lparr>FilterPrice = ''>abc''\<rparr>
     = Returns (Inl PathError)"
  by (simp add: library_PriceFilter_def index_at_def slice_from_def Let_def
      file_library_def NewLibrary_def library_GetBooks_def
      ioutil_ReadFile_def run_env_def empty_world_def)

text \<open>
  C8. When the facade is built with the relational store selected, the method
  \<open>PriceFilter\<close> returns the error "NotImplemented" for every filter expression,
  whatever the environment and the world are: the expression is not parsed, the store is
  not contacted and no collection is read.
\<close>

theorem library_PriceFilter_useSql:
  "useSql l \<Longrightarrow> library_PriceFilter env l w filter' = Returns (Inl ErrNotImplemented)"
  by (simp add: library_PriceFilter_def)

theorem library_PriceFilter_useSql_witness:
  "useSql sql_library \<and>
   library_PriceFilter run_env sql_library (run_world [dune]) \<lparr>FilterPrice = ''>10''\<rparr>
     = Returns (Inl ErrNotImplemented)"
  using library_PriceFilter_useSql [of sql_library run_env "run_world [dune]" "\<lparr>FilterPrice = ''>10''\<rparr>"]
  by (simp add: sql_library_def NewLibrary_def)

text \<open>
  C10 fails on the package-level \<open>PriceFilter\<close>: it reads the first byte of the
  expression (line 149) with no check of the length, so on the empty expression, once
  the catalogue has loaded, the index is out of range and the call panics.
\<close>

theorem PriceFilter_empty_panics:
  "GetBooks run_env (run_world [dune]) = Inr [dune] \<and>
   PriceFilter run_env (run_world [dune]) \<lparr>FilterPrice = ''''\<rparr> = Panics"
  by (simp add: PriceFilter_def index_at_def GetBooks_def ioutil_ReadFile_def run_env_def
      run_world_def)

text \<open>
  The method has the length check (lines 413-415) the function lacks: it returns for
  every expression, the empty one and those of one byte included. The function returns
  for every expression that is not empty.
\<close>

lemma library_PriceFilter_never_panics:
  "library_PriceFilter env l w filter' \<noteq> Panics"
  by (cases "FilterPrice filter'")
    (auto simp: library_PriceFilter_def index_at_def slice_from_def Let_def
      split: sum.splits)

lemma PriceFilter_nonempty_never_panics:
  "FilterPrice filter' \<noteq> [] \<Longrightarrow> PriceFilter env w filter' \<noteq> Panics"
  by (cases "FilterPrice filter'")
    (auto simp: PriceFilter_def index_at_def slice_from_def split: sum.splits)

lemma PriceFilter_empty:
  "PriceFilter env w \<lparr>FilterPrice = []\<rparr> =
     (case GetBooks env w of Inl err \<Rightarrow> Returns (Inl err) | Inr books \<Rightarrow> Panics)"
  by (simp add: PriceFilter_def index_at_def split: sum.splits)

end
